theory Spec2Isabelle
  imports Main "HOL-Library.AList" "HOL-Library.Char_ord" "HOL-Library.List_Lexorder"
begin

section \<open>JSON documents and Go values\<close>

text \<open>
  The services in board.go, user.go and webhook.go decode response bodies with
  encoding/json, which works by reflection over the struct declarations and their
  \<^verbatim>\<open>json:"..."\<close> tags. The model follows that: a JSON document is a tree, a Go type is
  a descriptor that repeats the struct declaration (field name, tag text, field type),
  and one decoder interprets the descriptors.

  A number literal that is an integer numeral is \<open>JNum\<close>; any other number literal
  (fraction, exponent) is \<open>JNumLit\<close> with its text. Go's \<open>int\<close> is taken as 64 bits wide;
  no arithmetic is done on it in these files, so it is an \<open>int\<close> here and the width only
  shows in the range check of the decoder.
\<close>

datatype json = JNull | JBool bool | JNum int | JNumLit string | JStr string
  | JArr "json list" | JObj "(string \<times> json) list"

datatype gotype = TInt | TString | TBool
  | TStruct "(string \<times> string \<times> gotype) list"
  | TSlice gotype | TPtr gotype | TExtern string

text \<open>
  \<open>TExtern n\<close> is a type declared outside the three files (Issue, Epic, AvatarUrls,
  time.Time). Its values are of a type parameter \<open>'x\<close>, and its zero value and its decoder
  are parameters (\<open>Codec\<close>).
\<close>

datatype 'x goval = VInt int | VString string | VBool bool
  | VStruct "(string \<times> 'x goval) list" | VSlice "'x goval list option"
  | VPtr "'x goval option" | VExtern 'x

record 'x Codec =
  zero_ext :: "string \<Rightarrow> 'x"
  decode_ext :: "string \<Rightarrow> json \<Rightarrow> 'x \<Rightarrow> 'x \<times> bool"

text \<open>The zero value of a type: what \<^verbatim>\<open>new(T)\<close> holds. A nil slice is \<open>VSlice None\<close>.\<close>

fun zero :: "'x Codec \<Rightarrow> gotype \<Rightarrow> 'x goval" where
  "zero cd TInt = VInt 0"
| "zero cd TString = VString []"
| "zero cd TBool = VBool False"
| "zero cd (TStruct fs) = VStruct (map (\<lambda>(name, tag, T). (name, zero cd T)) fs)"
| "zero cd (TSlice T) = VSlice None"
| "zero cd (TPtr T) = VPtr None"
| "zero cd (TExtern n) = VExtern (zero_ext cd n)"

definition to_lower :: "char \<Rightarrow> char" where
  "to_lower c =
     (if CHR ''A'' \<le> c \<and> c \<le> CHR ''Z'' then char_of (of_char c + (32::nat)) else c)"

text \<open>
  The key a field is decoded from: none for the tag \<^verbatim>\<open>json:"-"\<close>, else the tag's text
  before the first comma (the options, such as omitempty, only matter when encoding),
  else the field's name.
\<close>

definition json_key :: "string \<times> string \<times> gotype \<Rightarrow> string option" where
  "json_key f = (case f of (name, tag, T) \<Rightarrow>
     if tag = ''-'' then None
     else let k = takeWhile (\<lambda>c. c \<noteq> CHR '','') tag in Some (if k = [] then name else k))"

text \<open>
  encoding/json looks a key up by exact match first and then ignoring letter case
  (ASCII folding here).
\<close>

definition find_field ::
  "(string \<times> string \<times> gotype) list \<Rightarrow> string \<Rightarrow> (string \<times> string \<times> gotype) option" where
  "find_field fs k =
     (case find (\<lambda>f. json_key f = Some k) fs of
        Some f \<Rightarrow> Some f
      | None \<Rightarrow> find (\<lambda>f. case json_key f of None \<Rightarrow> False
                                | Some k' \<Rightarrow> map to_lower k' = map to_lower k) fs)"

definition field_get ::
  "'x Codec \<Rightarrow> (string \<times> 'x goval) list \<Rightarrow> string \<Rightarrow> gotype \<Rightarrow> 'x goval" where
  "field_get cd vals name T = (case map_of vals name of Some v \<Rightarrow> v | None \<Rightarrow> zero cd T)"

definition int_fits :: "int \<Rightarrow> bool" where
  "int_fits n = (- (2 ^ 63) \<le> n \<and> n < 2 ^ 63)"

text \<open>
  Decoding a document into a value of a type, as encoding/json does it. The result is
  the new value and whether no type error was met: on a JSON value that does not fit
  the target, the target is left as it is, the error is kept and decoding goes on.
  \<open>null\<close> sets a pointer or a slice to nil and leaves every other target unchanged. A
  key that matches no field is skipped. Each element of an array is decoded into a zero
  value.
\<close>

fun unmarshal :: "'x Codec \<Rightarrow> gotype \<Rightarrow> json \<Rightarrow> 'x goval \<Rightarrow> 'x goval \<times> bool"
and unmarshal_object ::
  "'x Codec \<Rightarrow> (string \<times> string \<times> gotype) list \<Rightarrow> (string \<times> json) list
     \<Rightarrow> (string \<times> 'x goval) list \<Rightarrow> (string \<times> 'x goval) list \<times> bool"
and unmarshal_array :: "'x Codec \<Rightarrow> gotype \<Rightarrow> json list \<Rightarrow> 'x goval list \<times> bool"
where
  "unmarshal cd (TExtern n) j v =
     (case v of VExtern x \<Rightarrow> (case decode_ext cd n j x of (x', ok) \<Rightarrow> (VExtern x', ok))
              | _ \<Rightarrow> (v, False))"
| "unmarshal cd (TPtr T) JNull v = (VPtr None, True)"
| "unmarshal cd (TSlice T) JNull v = (VSlice None, True)"
| "unmarshal cd T JNull v = (v, True)"
| "unmarshal cd (TPtr T) j v =
     (case unmarshal cd T j (case v of VPtr (Some x) \<Rightarrow> x | _ \<Rightarrow> zero cd T) of
        (x', ok) \<Rightarrow> (VPtr (Some x'), ok))"
| "unmarshal cd TInt (JNum n) v = (if int_fits n then (VInt n, True) else (v, False))"
| "unmarshal cd TString (JStr s) v = (VString s, True)"
| "unmarshal cd TBool (JBool b) v = (VBool b, True)"
| "unmarshal cd (TStruct fs) (JObj kvs) v =
     (case unmarshal_object cd fs kvs (case v of VStruct vals \<Rightarrow> vals | _ \<Rightarrow> []) of
        (vals', ok) \<Rightarrow> (VStruct vals', ok))"
| "unmarshal cd (TSlice T) (JArr js) v =
     (case unmarshal_array cd T js of (xs, ok) \<Rightarrow> (VSlice (Some xs), ok))"
| "unmarshal cd T j v = (v, False)"
| "unmarshal_object cd fs [] vals = (vals, True)"
| "unmarshal_object cd fs ((k, j) # kvs) vals =
     (case find_field fs k of
        None \<Rightarrow> unmarshal_object cd fs kvs vals
      | Some (name, tag, T) \<Rightarrow>
          (case unmarshal cd T j (field_get cd vals name T) of
             (x, ok1) \<Rightarrow>
               (case unmarshal_object cd fs kvs (AList.update name x vals) of
                  (vals', ok2) \<Rightarrow> (vals', ok1 \<and> ok2))))"
| "unmarshal_array cd T [] = ([], True)"
| "unmarshal_array cd T (j # js) =
     (case unmarshal cd T j (zero cd T) of
        (x, ok1) \<Rightarrow> (case unmarshal_array cd T js of (xs, ok2) \<Rightarrow> (x # xs, ok1 \<and> ok2)))"

text \<open>Reading a field of a struct value, and the elements of a slice value.\<close>

definition field :: "string \<Rightarrow> 'x goval \<Rightarrow> 'x goval option" where
  "field name v = (case v of VStruct vals \<Rightarrow> map_of vals name | _ \<Rightarrow> None)"

definition slice_of :: "'x goval option \<Rightarrow> 'x goval list option" where
  "slice_of v = (case v of Some (VSlice xs) \<Rightarrow> xs | _ \<Rightarrow> None)"


section \<open>The declared types\<close>

subsection \<open>board.go\<close>

definition Board :: gotype where
  "Board = TStruct
    [(''ID'', ''id,omitempty'', TInt),
     (''Self'', ''self,omitempty'', TString),
     (''Name'', ''name,omitempty'', TString),
     (''Type'', ''type,omitempty'', TString),
     (''FilterID'', ''filterId,omitempty'', TInt)]"

definition BoardsList :: gotype where
  "BoardsList = TStruct
    [(''MaxResults'', ''maxResults'', TInt),
     (''StartAt'', ''startAt'', TInt),
     (''Total'', ''total'', TInt),
     (''IsLast'', ''isLast'', TBool),
     (''Values'', ''values'', TSlice Board)]"

text \<open>
  BoardListOptions is only handed to addOptions; its embedded SearchOptions is declared
  elsewhere and is a type parameter.
\<close>

record 'so BoardListOptions =
  BoardType :: string
  Name :: string
  ProjectKeyOrID :: string
  SearchOptions :: 'so

definition Sprint :: gotype where
  "Sprint = TStruct
    [(''ID'', ''id'', TInt),
     (''Name'', ''name'', TString),
     (''CompleteDate'', ''completeDate'', TPtr (TExtern ''time.Time'')),
     (''EndDate'', ''endDate'', TPtr (TExtern ''time.Time'')),
     (''StartDate'', ''startDate'', TPtr (TExtern ''time.Time'')),
     (''OriginBoardID'', ''originBoardId'', TInt),
     (''Self'', ''self'', TString),
     (''State'', ''state'', TString)]"

definition sprintsResult :: gotype where
  "sprintsResult = TStruct [(''Sprints'', ''values'', TSlice Sprint)]"

definition backlogResults :: gotype where
  "backlogResults = TStruct [(''Backlog'', ''issues'', TSlice (TExtern ''Issue''))]"

definition epicResults :: gotype where
  "epicResults = TStruct [(''Epics'', ''values'', TSlice (TExtern ''Epic''))]"

definition ConfigFilter :: gotype where
  "ConfigFilter = TStruct [(''ID'', ''id'', TString), (''Self'', ''self'', TString)]"

definition BoardStatus :: gotype where
  "BoardStatus = TStruct [(''ID'', ''id'', TString), (''Self'', ''self'', TString)]"

definition Column :: gotype where
  "Column = TStruct
    [(''Name'', ''name'', TString),
     (''Statuses'', ''statuses'', TSlice BoardStatus),
     (''Min'', ''min'', TInt),
     (''Max'', ''max'', TInt)]"

definition ColumnConfig :: gotype where
  "ColumnConfig = TStruct
    [(''Columns'', ''columns'', TSlice Column),
     (''ConstraintType'', ''constraintType'', TString)]"

definition BoardEstimationField :: gotype where
  "BoardEstimationField = TStruct
    [(''FieldId'', ''fieldId'', TString), (''DisplayName'', ''displayName'', TString)]"

definition Estimation :: gotype where
  "Estimation = TStruct
    [(''Type'', ''type'', TString), (''Field'', ''field'', BoardEstimationField)]"

definition Ranking :: gotype where
  "Ranking = TStruct [(''RankCustomFieldId'', ''rankCustomFieldId'', TInt)]"

definition BoardConfiguration :: gotype where
  "BoardConfiguration = TStruct
    [(''ID'', ''id'', TInt),
     (''Name'', ''name'', TString),
     (''Self'', ''self'', TString),
     (''Filter'', ''filter'', ConfigFilter),
     (''ColumnConfig'', ''columnConfig'', ColumnConfig),
     (''Estimation'', ''estimation'', Estimation),
     (''Ranking'', ''ranking'', Ranking)]"

subsection \<open>user.go\<close>

definition User :: gotype where
  "User = TStruct
    [(''Self'', ''self,omitempty'', TString),
     (''Name'', ''name,omitempty'', TString),
     (''Password'', ''-'', TString),
     (''Key'', ''key,omitempty'', TString),
     (''EmailAddress'', ''emailAddress,omitempty'', TString),
     (''AvatarUrls'', ''avatarUrls,omitempty'', TExtern ''AvatarUrls''),
     (''DisplayName'', ''displayName,omitempty'', TString),
     (''Active'', ''active,omitempty'', TBool),
     (''TimeZone'', ''timeZone,omitempty'', TString),
     (''ApplicationKeys'', ''applicationKeys,omitempty'', TSlice TString)]"

text \<open>UserPermissionSearch is passed by value and only read.\<close>

record UserPermissionSearch =
  Username :: string
  Permissions :: string
  IssueKey :: string
  ProjectKey :: string
  StartAt :: int
  MaxResults :: int

subsection \<open>webhook.go\<close>

definition Webhook :: gotype where
  "Webhook = TStruct
    [(''Name'', ''name,omitempty'', TString),
     (''Url'', ''url,omitempty'', TString),
     (''Events'', ''events,omitempty'', TSlice TString),
     (''JqlFilter'', ''jqlFilter,omitempty'', TString),
     (''ExcludeIssueDetails'', ''excludeIssueDetails,omitempty'', TBool)]"


section \<open>Errors, responses and the client\<close>

text \<open>
  Go compares error values by identity. \<open>Upstream\<close> is an error value made outside the
  three files (by the client, the transport or addOptions), with its message;
  \<open>JsonError\<close> is the error of encoding/json; \<open>Errorf\<close> is a value made by fmt.Errorf in
  these files, which is never identical to one made elsewhere.
\<close>

datatype error = Upstream string | JsonError | Errorf string

text \<open>
  The bytes of a response body as encoding/json sees them: \<open>None\<close> when they are not one
  well-formed JSON text, else the document. Reading the body either fails or gives the
  bytes.
\<close>

type_synonym bytes = "json option"

datatype body = ReadFails string | Bytes bytes

record Response =
  StatusCode :: nat
  Body :: body

datatype 'x reqbody = NoBody | JsonBody "'x goval option"

record 'x Request =
  Method :: string
  URL :: string
  ReqBody :: "'x reqbody"

text \<open>
  What comes back for a request: no response at all (connection, timeout), a response
  with a status outside 2xx, or a response with a 2xx status.
\<close>

datatype reply = NoResponse string | ErrorStatus Response string | Success Response

text \<open>
  The client and transport are not in the three files. Their behaviour is a parameter:
  whether building a request fails, what the server answers, and the codec of the types
  declared elsewhere.
\<close>

record 'x Client =
  codec :: "'x Codec"
  build_error :: "string \<Rightarrow> string \<Rightarrow> 'x reqbody \<Rightarrow> string option"
  roundTrip :: "'x Request \<Rightarrow> reply"

text \<open>
  The state: the heap of allocated objects (an address is an index; allocation appends)
  and the requests sent so far, in order.
\<close>

type_synonym addr = nat

record 'x World =
  heap :: "'x goval list"
  sent :: "'x Request list"

definition new :: "'x Codec \<Rightarrow> gotype \<Rightarrow> 'x World \<Rightarrow> addr \<times> 'x World" where
  "new cd T w = (length (heap w), w\<lparr>heap := heap w @ [zero cd T]\<rparr>)"

text \<open>\<^verbatim>\<open>make([]T, 0)\<close> whose address is taken: a cell holding an empty, non-nil slice.\<close>

definition make_slice :: "'x World \<Rightarrow> addr \<times> 'x World" where
  "make_slice w = (length (heap w), w\<lparr>heap := heap w @ [VSlice (Some [])]\<rparr>)"

definition load :: "'x World \<Rightarrow> addr \<Rightarrow> 'x goval option" where
  "load w a = (if a < length (heap w) then Some (heap w ! a) else None)"

definition store :: "'x World \<Rightarrow> addr \<Rightarrow> 'x goval \<Rightarrow> 'x World" where
  "store w a x = w\<lparr>heap := (heap w)[a := x]\<rparr>"

text \<open>A pointer argument is nil or the address of an allocated object.\<close>

definition valid_ptr :: "'x World \<Rightarrow> addr option \<Rightarrow> bool" where
  "valid_ptr w p = (case p of None \<Rightarrow> True | Some a \<Rightarrow> a < length (heap w))"

text \<open>
  Modelled from the spec: Client.NewRequest is not in the three files. The spec's
  Transport "performs an HTTP request given method, path, and optional body"; the
  request built carries exactly these three, and building may fail.
\<close>

definition NewRequest ::
  "'x Client \<Rightarrow> string \<Rightarrow> string \<Rightarrow> 'x reqbody \<Rightarrow> error + 'x Request" where
  "NewRequest c m u b =
     (case build_error c m u b of
        Some msg \<Rightarrow> Inl (Upstream msg)
      | None \<Rightarrow> Inr \<lparr>Method = m, URL = u, ReqBody = b\<rparr>)"

definition ioutil_ReadAll :: "body \<Rightarrow> error + bytes" where
  "ioutil_ReadAll b = (case b of ReadFails msg \<Rightarrow> Inl (Upstream msg) | Bytes d \<Rightarrow> Inr d)"

text \<open>json.Unmarshal(data, v) for a pointer v to an object of type T.\<close>

definition json_Unmarshal ::
  "'x Codec \<Rightarrow> bytes \<Rightarrow> gotype \<Rightarrow> addr \<Rightarrow> 'x World \<Rightarrow> error option \<times> 'x World" where
  "json_Unmarshal cd d T a w =
     (case d of
        None \<Rightarrow> (Some JsonError, w)
      | Some j \<Rightarrow>
          (case unmarshal cd T j (case load w a of Some x \<Rightarrow> x | None \<Rightarrow> zero cd T) of
             (x, ok) \<Rightarrow> (if ok then None else Some JsonError, store w a x)))"

text \<open>
  Modelled from the spec: Client.Do is not in the three files. By the spec's sections 2
  and 7 the Transport executes the call and the body is decoded into the target shape;
  a connection failure or a status outside 2xx is an error (for a 404 together with a
  non-nil response handle), and the decoded payload is only there on success. The
  request is sent once; \<open>v\<close> is the target (its type and address), nil for none.
\<close>

definition Do ::
  "'x Client \<Rightarrow> 'x Request \<Rightarrow> (gotype \<times> addr) option \<Rightarrow> 'x World
     \<Rightarrow> (Response option \<times> error option) \<times> 'x World" where
  "Do c req v w =
     (let w1 = w\<lparr>sent := sent w @ [req]\<rparr> in
      case roundTrip c req of
        NoResponse msg \<Rightarrow> ((None, Some (Upstream msg)), w1)
      | ErrorStatus resp msg \<Rightarrow> ((Some resp, Some (Upstream msg)), w1)
      | Success resp \<Rightarrow>
          (case v of
             None \<Rightarrow> ((Some resp, None), w1)
           | Some (T, a) \<Rightarrow>
               (case ioutil_ReadAll (Body resp) of
                  Inl e \<Rightarrow> ((Some resp, Some e), w1)
                | Inr d \<Rightarrow>
                    (case json_Unmarshal (codec c) d T a w1 of
                       (err, w2) \<Rightarrow> ((Some resp, err), w2)))))"

text \<open>The requests a call sent: those of the state after it that were not there before.\<close>

definition issued :: "'x World \<Rightarrow> 'x World \<Rightarrow> 'x Request list" where
  "issued w w' = drop (length (sent w)) (sent w')"


section \<open>Formatting and query strings\<close>

text \<open>strconv.Itoa, which is also what \<^verbatim>\<open>%v\<close> prints for an int: the decimal numeral.\<close>

definition digit_char :: "nat \<Rightarrow> char" where
  "digit_char d = char_of (48 + d)"

fun dec :: "nat \<Rightarrow> string" where
  "dec n = (if n < 10 then [digit_char n] else dec (n div 10) @ [digit_char (n mod 10)])"

definition Itoa :: "int \<Rightarrow> string" where
  "Itoa i = (if i < 0 then CHR ''-'' # dec (nat (- i)) else dec (nat i))"

text \<open>
  url.Values is a map from a key to its list of values. It is an association list with
  distinct keys here; the order of the list plays no role in Encode, which sorts.
\<close>

type_synonym Values = "(string \<times> string list) list"

definition Values_Set :: "Values \<Rightarrow> string \<Rightarrow> string \<Rightarrow> Values" where
  "Values_Set v k x = AList.update k [x] v"

definition upperhex :: "nat \<Rightarrow> char" where
  "upperhex n = ''0123456789ABCDEF'' ! (n mod 16)"

text \<open>net/url's shouldEscape in the mode of a query component.\<close>

definition shouldEscape :: "char \<Rightarrow> bool" where
  "shouldEscape c =
     (if (CHR ''a'' \<le> c \<and> c \<le> CHR ''z'') \<or> (CHR ''A'' \<le> c \<and> c \<le> CHR ''Z'')
          \<or> (CHR ''0'' \<le> c \<and> c \<le> CHR ''9'') then False
      else if c \<in> set ''-_.~'' then False
      else True)"

definition escape_byte :: "char \<Rightarrow> string" where
  "escape_byte c =
     (if c = CHR '' '' then ''+''
      else if shouldEscape c
        then [CHR ''%'', upperhex (of_char c div 16), upperhex (of_char c mod 16)]
      else [c])"

definition QueryEscape :: "string \<Rightarrow> string" where
  "QueryEscape s = concat (map escape_byte s)"

text \<open>
  Values.Encode: the keys sorted, each value written as key=value with both sides
  escaped, an ampersand before every pair but the first.
\<close>

definition Values_Encode :: "Values \<Rightarrow> string" where
  "Values_Encode v =
     fold (\<lambda>k buf.
            fold (\<lambda>x buf. (if buf \<noteq> [] then buf @ ''&'' else buf)
                            @ QueryEscape k @ ''='' @ QueryEscape x)
                 (case map_of v k of Some xs \<Rightarrow> xs | None \<Rightarrow> []) buf)
          (sort (map fst v)) []"

text \<open>
  The other direction, to state what a query string says: url.ParseQuery and
  QueryUnescape of net/url, and the query part of a URL as url.Parse cuts it out (what
  follows the first question mark, up to a number sign).
\<close>

definition ishex :: "char \<Rightarrow> bool" where
  "ishex c = ((CHR ''0'' \<le> c \<and> c \<le> CHR ''9'') \<or> (CHR ''a'' \<le> c \<and> c \<le> CHR ''f'')
              \<or> (CHR ''A'' \<le> c \<and> c \<le> CHR ''F''))"

definition unhex :: "char \<Rightarrow> nat" where
  "unhex c =
     (if CHR ''0'' \<le> c \<and> c \<le> CHR ''9'' then of_char c - 48
      else if CHR ''a'' \<le> c \<and> c \<le> CHR ''f'' then of_char c - 97 + 10
      else if CHR ''A'' \<le> c \<and> c \<le> CHR ''F'' then of_char c - 65 + 10
      else 0)"

fun QueryUnescape :: "string \<Rightarrow> string option" where
  "QueryUnescape [] = Some []"
| "QueryUnescape (c # s) =
     (if c = CHR ''%'' then
        (case s of
           a # b # t \<Rightarrow>
             if ishex a \<and> ishex b
             then map_option ((#) (char_of (unhex a * 16 + unhex b))) (QueryUnescape t)
             else None
         | _ \<Rightarrow> None)
      else map_option ((#) (if c = CHR ''+'' then CHR '' '' else c)) (QueryUnescape s))"

fun split_on :: "char \<Rightarrow> string \<Rightarrow> string list" where
  "split_on sep [] = [[]]"
| "split_on sep (c # s) =
     (if c = sep then [] # split_on sep s
      else (case split_on sep s of p # ps \<Rightarrow> (c # p) # ps | [] \<Rightarrow> [[c]]))"

definition Cut :: "string \<Rightarrow> char \<Rightarrow> string \<times> string" where
  "Cut s sep = (takeWhile (\<lambda>c. c \<noteq> sep) s, drop 1 (dropWhile (\<lambda>c. c \<noteq> sep) s))"

definition parse_pair :: "string \<Rightarrow> Values \<times> bool \<Rightarrow> Values \<times> bool" where
  "parse_pair key acc = (case acc of (m, ok) \<Rightarrow>
     if CHR '';'' \<in> set key then (m, False)
     else if key = [] then (m, ok)
     else (case Cut key CHR ''='' of (k, x) \<Rightarrow>
       (case QueryUnescape k of
          None \<Rightarrow> (m, False)
        | Some k' \<Rightarrow>
            (case QueryUnescape x of
               None \<Rightarrow> (m, False)
             | Some x' \<Rightarrow>
                 (AList.update k' ((case map_of m k' of Some xs \<Rightarrow> xs | None \<Rightarrow> []) @ [x']) m,
                  ok)))))"

text \<open>
  ParseQuery: the parameters in their order of appearance, and whether every pair was
  well formed.
\<close>

definition ParseQuery :: "string \<Rightarrow> Values \<times> bool" where
  "ParseQuery query = fold parse_pair (split_on CHR ''&'' query) ([], True)"

definition query_of :: "string \<Rightarrow> string" where
  "query_of u =
     drop 1 (dropWhile (\<lambda>c. c \<noteq> CHR ''?'') (takeWhile (\<lambda>c. c \<noteq> CHR ''#'') u))"


section \<open>BoardService (board.go)\<close>

text \<open>
  Every operation returns the decoded value (a pointer, nil as \<open>None\<close>, or a slice), the
  response handle and the error, and the state after it. The body argument of a POST
  is the object the pointer refers to when the request is built.
\<close>

definition ptr_body :: "'x World \<Rightarrow> addr option \<Rightarrow> 'x reqbody" where
  "ptr_body w p = JsonBody (case p of None \<Rightarrow> None | Some a \<Rightarrow> load w a)"

definition result_field :: "'x World \<Rightarrow> addr \<Rightarrow> string \<Rightarrow> 'x goval option" where
  "result_field w a name = (case load w a of None \<Rightarrow> None | Some v \<Rightarrow> field name v)"

definition result_slice :: "'x World \<Rightarrow> addr \<Rightarrow> string \<Rightarrow> 'x goval list option" where
  "result_slice w a name = slice_of (result_field w a name)"

text \<open>
  addOptions is a function of the package that is not in the three files; it is a
  parameter returning the URL and its error (a message). Its error is assigned to
  \<open>err\<close> and overwritten by the next assignment.
\<close>

definition GetAllBoards ::
  "(string \<Rightarrow> 'o \<Rightarrow> string \<times> string option) \<Rightarrow> 'x Client \<Rightarrow> 'o \<Rightarrow> 'x World
     \<Rightarrow> (addr option \<times> Response option \<times> error option) \<times> 'x World" where
  "GetAllBoards addOptions c opt w =
     (let apiEndpoint = ''rest/agile/1.0/board'';
          (url, err) = addOptions apiEndpoint opt
      in case NewRequest c ''GET'' url NoBody of
           Inl err \<Rightarrow> ((None, None, Some err), w)
         | Inr req \<Rightarrow>
             let (boards, w1) = new (codec c) BoardsList w;
                 ((resp, err), w2) = Do c req (Some (BoardsList, boards)) w1
             in if err \<noteq> None then ((None, resp, err), w2)
                else ((Some boards, resp, err), w2))"

definition GetBoard ::
  "'x Client \<Rightarrow> int \<Rightarrow> 'x World
     \<Rightarrow> (addr option \<times> Response option \<times> error option) \<times> 'x World" where
  "GetBoard c boardID w =
     (let apiEndpoint = ''rest/agile/1.0/board/'' @ Itoa boardID
      in case NewRequest c ''GET'' apiEndpoint NoBody of
           Inl err \<Rightarrow> ((None, None, Some err), w)
         | Inr req \<Rightarrow>
             let (board, w1) = new (codec c) Board w;
                 ((resp, err), w2) = Do c req (Some (Board, board)) w1
             in if err \<noteq> None then ((None, resp, err), w2)
                else ((Some board, resp, None), w2))"

definition CreateBoard ::
  "'x Client \<Rightarrow> addr option \<Rightarrow> 'x World
     \<Rightarrow> (addr option \<times> Response option \<times> error option) \<times> 'x World" where
  "CreateBoard c board w =
     (let apiEndpoint = ''rest/agile/1.0/board''
      in case NewRequest c ''POST'' apiEndpoint (ptr_body w board) of
           Inl err \<Rightarrow> ((None, None, Some err), w)
         | Inr req \<Rightarrow>
             let (responseBoard, w1) = new (codec c) Board w;
                 ((resp, err), w2) = Do c req (Some (Board, responseBoard)) w1
             in if err \<noteq> None then ((None, resp, err), w2)
                else ((Some responseBoard, resp, None), w2))"

definition GetBoardConfig ::
  "'x Client \<Rightarrow> string \<Rightarrow> 'x World
     \<Rightarrow> (addr option \<times> Response option \<times> error option) \<times> 'x World" where
  "GetBoardConfig c boardID w =
     (let apiEndpoint = ''rest/agile/1.0/board/'' @ boardID @ ''/configuration''
      in case NewRequest c ''GET'' apiEndpoint NoBody of
           Inl err \<Rightarrow> ((None, None, Some err), w)
         | Inr req \<Rightarrow>
             let (result, w1) = new (codec c) BoardConfiguration w;
                 ((resp, err), w2) = Do c req (Some (BoardConfiguration, result)) w1
             in ((Some result, resp, err), w2))"

definition DeleteBoard ::
  "'x Client \<Rightarrow> int \<Rightarrow> 'x World
     \<Rightarrow> (addr option \<times> Response option \<times> error option) \<times> 'x World" where
  "DeleteBoard c boardID w =
     (let apiEndpoint = ''rest/agile/1.0/board/'' @ Itoa boardID
      in case NewRequest c ''DELETE'' apiEndpoint NoBody of
           Inl err \<Rightarrow> ((None, None, Some err), w)
         | Inr req \<Rightarrow>
             let ((resp, err), w1) = Do c req None w
             in ((None, resp, err), w1))"

definition GetAllSprints ::
  "'x Client \<Rightarrow> string \<Rightarrow> 'x World
     \<Rightarrow> ('x goval list option \<times> Response option \<times> error option) \<times> 'x World" where
  "GetAllSprints c boardID w =
     (let apiEndpoint = ''rest/agile/1.0/board/'' @ boardID @ ''/sprint?maxResults=1000''
      in case NewRequest c ''GET'' apiEndpoint NoBody of
           Inl err \<Rightarrow> ((None, None, Some err), w)
         | Inr req \<Rightarrow>
             let (result, w1) = new (codec c) sprintsResult w;
                 ((resp, err), w2) = Do c req (Some (sprintsResult, result)) w1
             in ((result_slice w2 result ''Sprints'', resp, err), w2))"

definition GetEpicsForBoard ::
  "'x Client \<Rightarrow> string \<Rightarrow> 'x World
     \<Rightarrow> ('x goval list option \<times> Response option \<times> error option) \<times> 'x World" where
  "GetEpicsForBoard c boardID w =
     (let apiEndpoint = ''rest/agile/1.0/board/'' @ boardID @ ''/epic?maxResults=1000''
      in case NewRequest c ''GET'' apiEndpoint NoBody of
           Inl err \<Rightarrow> ((None, None, Some err), w)
         | Inr req \<Rightarrow>
             let (result, w1) = new (codec c) epicResults w;
                 ((resp, err), w2) = Do c req (Some (epicResults, result)) w1
             in ((result_slice w2 result ''Epics'', resp, err), w2))"

definition GetIssuesForBacklog ::
  "'x Client \<Rightarrow> string \<Rightarrow> 'x World
     \<Rightarrow> ('x goval list option \<times> Response option \<times> error option) \<times> 'x World" where
  "GetIssuesForBacklog c boardID w =
     (let apiEndpoint = ''rest/agile/1.0/board/'' @ boardID @ ''/backlog?maxResults=1000''
      in case NewRequest c ''GET'' apiEndpoint NoBody of
           Inl err \<Rightarrow> ((None, None, Some err), w)
         | Inr req \<Rightarrow>
             let (result, w1) = new (codec c) backlogResults w;
                 ((resp, err), w2) = Do c req (Some (backlogResults, result)) w1
             in ((result_slice w2 result ''Backlog'', resp, err), w2))"

definition GetIssuesForEpic ::
  "'x Client \<Rightarrow> string \<Rightarrow> string \<Rightarrow> 'x World
     \<Rightarrow> ('x goval list option \<times> Response option \<times> error option) \<times> 'x World" where
  "GetIssuesForEpic c boardID epicID w =
     (let apiEndpoint = ''rest/agile/1.0/board/'' @ boardID @ ''/epic/'' @ epicID
                          @ ''/issue?maxResults=1000''
      in case NewRequest c ''GET'' apiEndpoint NoBody of
           Inl err \<Rightarrow> ((None, None, Some err), w)
         | Inr req \<Rightarrow>
             let (result, w1) = new (codec c) backlogResults w;
                 ((resp, err), w2) = Do c req (Some (backlogResults, result)) w1
             in ((result_slice w2 result ''Backlog'', resp, err), w2))"

definition GetIssuesWithoutEpic ::
  "'x Client \<Rightarrow> string \<Rightarrow> 'x World
     \<Rightarrow> ('x goval list option \<times> Response option \<times> error option) \<times> 'x World" where
  "GetIssuesWithoutEpic c boardID w =
     (let apiEndpoint = ''rest/agile/1.0/board/'' @ boardID
                          @ ''/epic/none/issue?maxResults=1000''
      in case NewRequest c ''GET'' apiEndpoint NoBody of
           Inl err \<Rightarrow> ((None, None, Some err), w)
         | Inr req \<Rightarrow>
             let (result, w1) = new (codec c) backlogResults w;
                 ((resp, err), w2) = Do c req (Some (backlogResults, result)) w1
             in ((result_slice w2 result ''Backlog'', resp, err), w2))"


section \<open>UserService (user.go)\<close>

definition UserService_Get ::
  "'x Client \<Rightarrow> string \<Rightarrow> 'x World
     \<Rightarrow> (addr option \<times> Response option \<times> error option) \<times> 'x World" where
  "UserService_Get c username w =
     (let apiEndpoint = ''/rest/api/2/user?username='' @ username
      in case NewRequest c ''GET'' apiEndpoint NoBody of
           Inl err \<Rightarrow> ((None, None, Some err), w)
         | Inr req \<Rightarrow>
             let (user, w1) = new (codec c) User w;
                 ((resp, err), w2) = Do c req (Some (User, user)) w1
             in if err \<noteq> None then ((None, resp, err), w2)
                else ((Some user, resp, None), w2))"

definition UserService_Myself ::
  "'x Client \<Rightarrow> 'x World
     \<Rightarrow> (addr option \<times> Response option \<times> error option) \<times> 'x World" where
  "UserService_Myself c w =
     (case NewRequest c ''GET'' ''/rest/api/2/myself'' NoBody of
        Inl err \<Rightarrow> ((None, None, Some err), w)
      | Inr req \<Rightarrow>
          let (user, w1) = new (codec c) User w;
              ((resp, err), w2) = Do c req (Some (User, user)) w1
          in if err \<noteq> None then ((None, resp, err), w2)
             else ((Some user, resp, None), w2))"

text \<open>
  The two Create operations and WebhookService.GetAll read \<^verbatim>\<open>resp.Body\<close> themselves
  after Do returned no error; on a nil response handle that dereference panics.
  The deferred \<^verbatim>\<open>resp.Body.Close()\<close> has no effect on what is returned.
\<close>

datatype 'a outcome = Return 'a | Panic

definition UserService_Create ::
  "'x Client \<Rightarrow> addr option \<Rightarrow> 'x World
     \<Rightarrow> ((addr option \<times> Response option \<times> error option) \<times> 'x World) outcome" where
  "UserService_Create c user w =
     (let apiEndpoint = ''/rest/api/2/user''
      in case NewRequest c ''POST'' apiEndpoint (ptr_body w user) of
           Inl err \<Rightarrow> Return ((None, None, Some err), w)
         | Inr req \<Rightarrow>
             (case Do c req None w of
                ((resp, Some err), w1) \<Rightarrow> Return ((None, resp, Some err), w1)
              | ((None, None), w1) \<Rightarrow> Panic
              | ((Some r, None), w1) \<Rightarrow>
                  let (responseUser, w2) = new (codec c) User w1
                  in (case ioutil_ReadAll (Body r) of
                        Inl err \<Rightarrow>
                          Return ((None, Some r,
                                   Some (Errorf ''Could not read the returned data'')), w2)
                      | Inr data \<Rightarrow>
                          (case json_Unmarshal (codec c) data User responseUser w2 of
                             (Some err, w3) \<Rightarrow>
                               Return ((None, Some r,
                                        Some (Errorf ''Could not unmarshall the data into struct'')),
                                       w3)
                           | (None, w3) \<Rightarrow>
                               Return ((Some responseUser, Some r, None), w3)))))"

definition PermissionSearch_values :: "UserPermissionSearch \<Rightarrow> Values" where
  "PermissionSearch_values search =
     (let v = [];
          v = (if IssueKey search \<noteq> [] then Values_Set v ''issueKey'' (IssueKey search)
               else v);
          v = (if MaxResults search \<noteq> 0
               then Values_Set v ''maxResults'' (Itoa (MaxResults search))
               else Values_Set v ''maxResults'' ''1000'');
          v = (if Permissions search \<noteq> []
               then Values_Set v ''permissions'' (Permissions search) else v);
          v = (if ProjectKey search \<noteq> []
               then Values_Set v ''projectKey'' (ProjectKey search) else v);
          v = (if StartAt search \<noteq> 0 then Values_Set v ''startAt'' (Itoa (StartAt search))
               else v);
          v = (if Username search \<noteq> [] then Values_Set v ''username'' (Username search)
               else v)
      in v)"

definition PermissionSearch_url :: "UserPermissionSearch \<Rightarrow> string" where
  "PermissionSearch_url search =
     (let apiEndpoint = ''/rest/api/2/user/permission/search'';
          query = Values_Encode (PermissionSearch_values search)
      in if query \<noteq> [] then apiEndpoint @ ''?'' @ query else apiEndpoint)"

definition UserService_PermissionSearch ::
  "'x Client \<Rightarrow> UserPermissionSearch \<Rightarrow> 'x World
     \<Rightarrow> (addr option \<times> Response option \<times> error option) \<times> 'x World" where
  "UserService_PermissionSearch c search w =
     (let apiEndpoint = PermissionSearch_url search
      in case NewRequest c ''GET'' apiEndpoint NoBody of
           Inl err \<Rightarrow> ((None, None, Some err), w)
         | Inr req \<Rightarrow>
             let (users, w1) = make_slice w;
                 ((resp, err), w2) = Do c req (Some (TSlice User, users)) w1
             in if err \<noteq> None then ((None, resp, err), w2)
                else ((Some users, resp, None), w2))"


section \<open>WebhookService (webhook.go)\<close>

definition WebhookService_Create ::
  "'x Client \<Rightarrow> addr option \<Rightarrow> 'x World
     \<Rightarrow> ((addr option \<times> Response option \<times> error option) \<times> 'x World) outcome" where
  "WebhookService_Create c webhook w =
     (let apiEndpoint = ''/rest/webhooks/1.0/webhook''
      in case NewRequest c ''POST'' apiEndpoint (ptr_body w webhook) of
           Inl err \<Rightarrow> Return ((None, None, Some err), w)
         | Inr req \<Rightarrow>
             (case Do c req None w of
                ((resp, Some err), w1) \<Rightarrow> Return ((None, resp, Some err), w1)
              | ((None, None), w1) \<Rightarrow> Panic
              | ((Some r, None), w1) \<Rightarrow>
                  let (responseWebhook, w2) = new (codec c) Webhook w1
                  in (case ioutil_ReadAll (Body r) of
                        Inl err \<Rightarrow>
                          Return ((None, Some r,
                                   Some (Errorf ''Could not read the returned data'')), w2)
                      | Inr data \<Rightarrow>
                          (case json_Unmarshal (codec c) data Webhook responseWebhook w2 of
                             (Some err, w3) \<Rightarrow>
                               Return ((None, Some r,
                                        Some (Errorf ''Could not unmarshall the data into struct'')),
                                       w3)
                           | (None, w3) \<Rightarrow>
                               Return ((Some responseWebhook, Some r, None), w3)))))"

definition WebhookService_GetAll ::
  "'x Client \<Rightarrow> 'x World
     \<Rightarrow> ((addr option \<times> Response option \<times> error option) \<times> 'x World) outcome" where
  "WebhookService_GetAll c w =
     (let apiEndpoint = ''/rest/webhooks/1.0/webhook''
      in case NewRequest c ''GET'' apiEndpoint NoBody of
           Inl err \<Rightarrow> Return ((None, None, Some err), w)
         | Inr req \<Rightarrow>
             (case Do c req None w of
                ((resp, Some err), w1) \<Rightarrow> Return ((None, resp, Some err), w1)
              | ((None, None), w1) \<Rightarrow> Panic
              | ((Some r, None), w1) \<Rightarrow>
                  let (responseWebhook, w2) = make_slice w1
                  in (case ioutil_ReadAll (Body r) of
                        Inl err \<Rightarrow>
                          Return ((None, Some r,
                                   Some (Errorf ''Could not read the returned data'')), w2)
                      | Inr data \<Rightarrow>
                          (case json_Unmarshal (codec c) data (TSlice Webhook)
                                  responseWebhook w2 of
                             (Some err, w3) \<Rightarrow>
                               Return ((None, Some r,
                                        Some (Errorf ''Could not unmarshall the data into struct'')),
                                       w3)
                           | (None, w3) \<Rightarrow>
                               Return ((Some responseWebhook, Some r, None), w3)))))"


section \<open>Notions and inputs of the theorems\<close>

subsection \<open>Concrete clients, states and responses\<close>

text \<open>
  Inputs the theorems are run on: a codec whose external values carry nothing, a client
  that builds every request and answers each with the same reply, and the empty state.
\<close>

definition unit_codec :: "unit Codec" where
  "unit_codec = \<lparr>zero_ext = (\<lambda>n. ()), decode_ext = (\<lambda>n j x. (x, True))\<rparr>"

definition fixed_client :: "reply \<Rightarrow> unit Client" where
  "fixed_client r =
     \<lparr>codec = unit_codec, build_error = (\<lambda>m u b. None), roundTrip = (\<lambda>req. r)\<rparr>"

definition world0 :: "unit World" where
  "world0 = \<lparr>heap = [], sent = []\<rparr>"

definition not_found :: reply where
  "not_found = ErrorStatus \<lparr>StatusCode = 404, Body = Bytes None\<rparr> ''404 Not Found''"

definition boards_page :: json where
  "boards_page = JObj
     [(''values'', JArr [JObj [(''id'', JNum 1)], JObj [(''id'', JNum 2)]]),
      (''total'', JNum 2),
      (''isLast'', JBool True)]"

definition ok_page :: Response where
  "ok_page = \<lparr>StatusCode = 200, Body = Bytes (Some boards_page)\<rparr>"

definition scrum_boards :: "unit BoardListOptions option" where
  "scrum_boards =
     Some \<lparr>BoardType = ''scrum'', Name = [], ProjectKeyOrID = [], SearchOptions = ()\<rparr>"

definition addOptions_ok ::
  "string \<Rightarrow> unit BoardListOptions option \<Rightarrow> string \<times> string option" where
  "addOptions_ok s opt = (s @ ''?boardType=scrum'', None)"

definition addOptions_failing ::
  "string \<Rightarrow> unit BoardListOptions option \<Rightarrow> string \<times> string option" where
  "addOptions_failing s opt = (s, Some ''encoding failed'')"


definition three_objects :: "unit World" where
  "three_objects =
     \<lparr>heap = [VStruct [(''ID'', VInt 0), (''Self'', VString []),
                        (''Name'', VString ''Team A''), (''Type'', VString ''scrum''),
                        (''FilterID'', VInt 42)],
               VStruct [(''Name'', VString ''Team A''), (''Url'', VString ''http://h/''),
                        (''Events'', VSlice None), (''JqlFilter'', VString []),
                        (''ExcludeIssueDetails'', VBool False)],
               VStruct [(''Self'', VString []), (''Name'', VString ''Team A''),
                        (''Password'', VString ''secret''), (''Key'', VString []),
                        (''EmailAddress'', VString []), (''AvatarUrls'', VExtern ()),
                        (''DisplayName'', VString []), (''Active'', VBool False),
                        (''TimeZone'', VString []), (''ApplicationKeys'', VSlice None)]],
       sent = []\<rparr>"

definition created :: Response where
  "created = \<lparr>StatusCode = 201,
               Body = Bytes (Some (JObj [(''id'', JNum 7), (''name'', JStr ''Team A'')]))\<rparr>"

definition unreadable :: Response where
  "unreadable = \<lparr>StatusCode = 201, Body = ReadFails ''connection reset''\<rparr>"

definition malformed :: Response where
  "malformed = \<lparr>StatusCode = 201, Body = Bytes None\<rparr>"

definition unexpected :: Response where
  "unexpected = \<lparr>StatusCode = 201, Body = Bytes (Some (JArr []))\<rparr>"


definition bob :: json where
  "bob = JObj [(''name'', JStr ''bob''), (''password'', JStr ''hunter2''),
               (''Password'', JStr ''hunter2''), (''-'', JStr ''hunter2'')]"

definition bob_page :: Response where
  "bob_page = \<lparr>StatusCode = 200, Body = Bytes (Some bob)\<rparr>"

definition bobs_page :: Response where
  "bobs_page = \<lparr>StatusCode = 200, Body = Bytes (Some (JArr [bob, bob]))\<rparr>"

definition no_filter :: UserPermissionSearch where
  "no_filter = \<lparr>Username = [], Permissions = [], IssueKey = [], ProjectKey = [],
                 StartAt = 0, MaxResults = 0\<rparr>"


subsection \<open>Predicates of the statements and proofs\<close>

text \<open>The Password field of a User, and of every User of a slice, is the empty string.\<close>

definition no_password :: "'x goval \<Rightarrow> bool" where
  "no_password v = (field ''Password'' v = Some (VString []))"

definition all_no_password :: "'x goval \<Rightarrow> bool" where
  "all_no_password v = (case v of VSlice (Some xs) \<Rightarrow> list_all no_password xs | _ \<Rightarrow> True)"

text \<open>The requests a GET of a URL issues: the one request, when the client can build it.\<close>

definition one_GET :: "'x Client \<Rightarrow> string \<Rightarrow> 'x Request list" where
  "one_GET c u =
     (case build_error c ''GET'' u NoBody of
        Some msg \<Rightarrow> []
      | None \<Rightarrow> [\<lparr>Method = ''GET'', URL = u, ReqBody = NoBody\<rparr>])"


text \<open>
  The parameters of a permission search as the amended claim C2 names them: maxResults
  always, with the caller's value or else 1000, and each other field that is not empty
  or zero, under its name, in the order of the names.
\<close>

definition PermissionSearch_params :: "UserPermissionSearch \<Rightarrow> (string \<times> string) list" where
  "PermissionSearch_params search =
     (if IssueKey search \<noteq> [] then [(''issueKey'', IssueKey search)] else [])
     @ [(''maxResults'',
         if MaxResults search \<noteq> 0 then Itoa (MaxResults search) else ''1000'')]
     @ (if Permissions search \<noteq> [] then [(''permissions'', Permissions search)] else [])
     @ (if ProjectKey search \<noteq> [] then [(''projectKey'', ProjectKey search)] else [])
     @ (if StartAt search \<noteq> 0 then [(''startAt'', Itoa (StartAt search))] else [])
     @ (if Username search \<noteq> [] then [(''username'', Username search)] else [])"

text \<open>A parameter with its one value, and its text in a query string.\<close>

definition one_value :: "string \<times> string \<Rightarrow> string \<times> string list" where
  "one_value kx = (fst kx, [snd kx])"

definition piece :: "string \<times> string \<Rightarrow> string" where
  "piece kx = QueryEscape (fst kx) @ ''='' @ QueryEscape (snd kx)"


section \<open>Facts about the client\<close>

lemma Do_nil:
  "Do c req None w =
     ((case roundTrip c req of
         NoResponse msg \<Rightarrow> (None, Some (Upstream msg))
       | ErrorStatus resp msg \<Rightarrow> (Some resp, Some (Upstream msg))
       | Success resp \<Rightarrow> (Some resp, None)),
      w\<lparr>sent := sent w @ [req]\<rparr>)"
  by (simp add: Do_def Let_def split: reply.splits)

lemma Do_ErrorStatus:
  "roundTrip c req = ErrorStatus resp msg \<Longrightarrow>
   Do c req v w = ((Some resp, Some (Upstream msg)), w\<lparr>sent := sent w @ [req]\<rparr>)"
  by (simp add: Do_def Let_def)

lemma Do_NoResponse:
  "roundTrip c req = NoResponse msg \<Longrightarrow>
   Do c req v w = ((None, Some (Upstream msg)), w\<lparr>sent := sent w @ [req]\<rparr>)"
  by (simp add: Do_def Let_def)

lemma Do_Success:
  "roundTrip c req = Success resp \<Longrightarrow>
   Do c req (Some (T, a)) w =
     (case Body resp of
        ReadFails msg \<Rightarrow> ((Some resp, Some (Upstream msg)), w\<lparr>sent := sent w @ [req]\<rparr>)
      | Bytes d \<Rightarrow>
          (case json_Unmarshal (codec c) d T a (w\<lparr>sent := sent w @ [req]\<rparr>) of
             (err, w2) \<Rightarrow> ((Some resp, err), w2)))"
  by (simp add: Do_def Let_def ioutil_ReadAll_def split: body.splits)

lemma sent_Do: "sent (snd (Do c req v w)) = sent w @ [req]"
  by (auto simp: Do_def Let_def ioutil_ReadAll_def json_Unmarshal_def store_def
        split: reply.splits body.splits option.splits prod.splits)


text \<open>
  The client returns a response handle whenever it returns no error, so the operations
  that read the body themselves never dereference a nil handle.
\<close>

lemma never_panics:
  "UserService_Create c p w \<noteq> Panic" "WebhookService_Create c p w \<noteq> Panic"
  "WebhookService_GetAll c w \<noteq> Panic"
  by (simp_all add: UserService_Create_def WebhookService_Create_def WebhookService_GetAll_def
        Do_nil Let_def split: sum.splits reply.splits prod.splits option.splits)


section \<open>DeleteBoard\<close>

text \<open>
  C7. For every board identifier, DeleteBoard builds one request, with the method DELETE
  and no body, and sends it once (nothing is sent when the client cannot build it); the
  decoded value it returns is nil in every outcome, nothing is allocated or changed on
  the heap, and the response handle and the error are the ones of the client.
\<close>

theorem DeleteBoard_spec:
  "fst (fst (DeleteBoard c boardID w)) = None
   \<and> heap (snd (DeleteBoard c boardID w)) = heap w
   \<and> issued w (snd (DeleteBoard c boardID w)) =
       (case build_error c ''DELETE'' (''rest/agile/1.0/board/'' @ Itoa boardID) NoBody of
          Some msg \<Rightarrow> []
        | None \<Rightarrow> [\<lparr>Method = ''DELETE'', URL = ''rest/agile/1.0/board/'' @ Itoa boardID,
                     ReqBody = NoBody\<rparr>])
   \<and> snd (fst (DeleteBoard c boardID w)) =
       (case build_error c ''DELETE'' (''rest/agile/1.0/board/'' @ Itoa boardID) NoBody of
          Some msg \<Rightarrow> (None, Some (Upstream msg))
        | None \<Rightarrow>
            (case roundTrip c \<lparr>Method = ''DELETE'',
                               URL = ''rest/agile/1.0/board/'' @ Itoa boardID,
                               ReqBody = NoBody\<rparr> of
               NoResponse msg \<Rightarrow> (None, Some (Upstream msg))
             | ErrorStatus resp msg \<Rightarrow> (Some resp, Some (Upstream msg))
             | Success resp \<Rightarrow> (Some resp, None)))"
  by (simp add: DeleteBoard_def NewRequest_def Do_nil issued_def Let_def
           split: option.splits reply.splits)

section \<open>A response with a status outside 2xx\<close>

text \<open>
  What the Get operations return when the client builds every request and the server
  answers with an error status: the operations that test \<open>err\<close> return nil, and so do
  those that return a slice of a result the client left untouched.
\<close>

lemma pointer_Get_ErrorStatus:
  assumes "\<And>m u b. build_error c m u b = None"
    and "\<And>req. roundTrip c req = ErrorStatus resp msg"
  shows "fst (GetAllBoards addOptions c opt w) = (None, Some resp, Some (Upstream msg))"
    and "fst (GetBoard c n w) = (None, Some resp, Some (Upstream msg))"
    and "fst (UserService_Get c username w) = (None, Some resp, Some (Upstream msg))"
    and "fst (UserService_Myself c w) = (None, Some resp, Some (Upstream msg))"
    and "fst (UserService_PermissionSearch c search w) =
           (None, Some resp, Some (Upstream msg))"
    and "\<exists>w'. WebhookService_GetAll c w = Return ((None, Some resp, Some (Upstream msg)), w')"
  by (simp_all add: GetAllBoards_def GetBoard_def UserService_Get_def UserService_Myself_def
        UserService_PermissionSearch_def WebhookService_GetAll_def NewRequest_def new_def
        make_slice_def Do_ErrorStatus assms Let_def split: prod.splits)

lemma slice_Get_ErrorStatus:
  assumes "\<And>m u b. build_error c m u b = None"
    and "\<And>req. roundTrip c req = ErrorStatus resp msg"
  shows "fst (GetAllSprints c boardID w) = (None, Some resp, Some (Upstream msg))"
    and "fst (GetEpicsForBoard c boardID w) = (None, Some resp, Some (Upstream msg))"
    and "fst (GetIssuesForBacklog c boardID w) = (None, Some resp, Some (Upstream msg))"
    and "fst (GetIssuesForEpic c boardID epicID w) = (None, Some resp, Some (Upstream msg))"
    and "fst (GetIssuesWithoutEpic c boardID w) = (None, Some resp, Some (Upstream msg))"
  by (simp_all add: GetAllSprints_def GetEpicsForBoard_def GetIssuesForBacklog_def
        GetIssuesForEpic_def GetIssuesWithoutEpic_def NewRequest_def new_def
        Do_ErrorStatus assms Let_def sprintsResult_def epicResults_def backlogResults_def
        result_slice_def result_field_def load_def field_def slice_of_def)

text \<open>GetBoardConfig has no test of \<open>err\<close>: it returns the pointer it allocated.\<close>

lemma GetBoardConfig_ErrorStatus:
  assumes "\<And>m u b. build_error c m u b = None"
    and "\<And>req. roundTrip c req = ErrorStatus resp msg"
  shows "fst (GetBoardConfig c boardID w) =
           (Some (length (heap w)), Some resp, Some (Upstream msg))"
  by (simp add: GetBoardConfig_def NewRequest_def new_def Do_ErrorStatus assms Let_def)

text \<open>
  C1. On a 404 every Get operation is to return a nil decoded value, a non-nil response
  handle and a non-nil error. GetBoardConfig for board 10 returns the response handle
  and the error, and with them a non-nil pointer (the object it allocated, address 0 of
  the empty heap).
\<close>

theorem GetBoardConfig_not_found:
  "fst (GetBoardConfig (fixed_client not_found) ''10'' world0) =
     (Some 0, Some \<lparr>StatusCode = 404, Body = Bytes None\<rparr>, Some (Upstream ''404 Not Found''))"
  by (simp add: GetBoardConfig_def NewRequest_def fixed_client_def not_found_def new_def
        world0_def Do_ErrorStatus Let_def)


section \<open>GetAllBoards\<close>

lemma unmarshal_boards_page:
  "unmarshal cd BoardsList boards_page (zero cd BoardsList) =
     (VStruct
       [(''MaxResults'', VInt 0), (''StartAt'', VInt 0), (''Total'', VInt 2),
        (''IsLast'', VBool True),
        (''Values'', VSlice (Some
           [VStruct [(''ID'', VInt 1), (''Self'', VString []), (''Name'', VString []),
                     (''Type'', VString []), (''FilterID'', VInt 0)],
            VStruct [(''ID'', VInt 2), (''Self'', VString []), (''Name'', VString []),
                     (''Type'', VString []), (''FilterID'', VInt 0)]]))],
      True)"
  by (simp add: BoardsList_def Board_def boards_page_def find_field_def json_key_def
        field_get_def int_fits_def to_lower_def)

text \<open>
  C4. When the request can be built and the response body is the document
  \<^verbatim>\<open>{"values":[{"id":1},{"id":2}], "total":2, "isLast":true}\<close>, GetAllBoards returns a
  BoardsList whose Values are two boards, the one with ID 1 first and the one with ID 2
  second, and whose Total is 2.
\<close>

theorem GetAllBoards_unwraps_values:
  assumes "build_error c ''GET'' (fst (addOptions ''rest/agile/1.0/board'' opt)) NoBody = None"
    and "roundTrip c \<lparr>Method = ''GET'', URL = fst (addOptions ''rest/agile/1.0/board'' opt),
                       ReqBody = NoBody\<rparr> = Success resp"
    and "Body resp = Bytes (Some boards_page)"
  shows "\<exists>a w'. GetAllBoards addOptions c opt w = ((Some a, Some resp, None), w')
           \<and> result_slice w' a ''Values'' =
               Some [VStruct [(''ID'', VInt 1), (''Self'', VString []), (''Name'', VString []),
                              (''Type'', VString []), (''FilterID'', VInt 0)],
                     VStruct [(''ID'', VInt 2), (''Self'', VString []), (''Name'', VString []),
                              (''Type'', VString []), (''FilterID'', VInt 0)]]
           \<and> result_field w' a ''Total'' = Some (VInt 2)"
  using assms
  by (cases "addOptions ''rest/agile/1.0/board'' opt")
     (simp add: GetAllBoards_def NewRequest_def new_def Do_Success json_Unmarshal_def
        load_def store_def unmarshal_boards_page result_slice_def result_field_def
        field_def slice_of_def Let_def nth_append)

theorem GetAllBoards_unwraps_values_witness:
  "build_error (fixed_client (Success ok_page)) ''GET''
      (fst (addOptions_ok ''rest/agile/1.0/board'' scrum_boards)) NoBody = None
   \<and> Body ok_page = Bytes (Some boards_page)
   \<and> (\<exists>a w'. GetAllBoards addOptions_ok (fixed_client (Success ok_page)) scrum_boards world0
                = ((Some a, Some ok_page, None), w')
           \<and> result_slice w' a ''Values'' =
               Some [VStruct [(''ID'', VInt 1), (''Self'', VString []), (''Name'', VString []),
                              (''Type'', VString []), (''FilterID'', VInt 0)],
                     VStruct [(''ID'', VInt 2), (''Self'', VString []), (''Name'', VString []),
                              (''Type'', VString []), (''FilterID'', VInt 0)]]
           \<and> result_field w' a ''Total'' = Some (VInt 2))"
  using GetAllBoards_unwraps_values [of "fixed_client (Success ok_page)" addOptions_ok
          scrum_boards ok_page world0]
  by (simp add: fixed_client_def ok_page_def)

text \<open>
  C8. Every failure is to abort the operation and be returned, the one of addOptions
  included. GetAllBoards overwrites the error of addOptions: when addOptions fails and
  the request built from the URL it returned succeeds, GetAllBoards returns the boards
  and no error.
\<close>

theorem GetAllBoards_drops_addOptions_error:
  "addOptions_failing ''rest/agile/1.0/board'' scrum_boards
     = (''rest/agile/1.0/board'', Some ''encoding failed'')
   \<and> fst (GetAllBoards addOptions_failing (fixed_client (Success ok_page)) scrum_boards world0)
     = (Some 0, Some ok_page, None)"
  by (simp add: GetAllBoards_def addOptions_failing_def NewRequest_def fixed_client_def
        new_def world0_def Do_Success ok_page_def json_Unmarshal_def load_def store_def
        unmarshal_boards_page unit_codec_def Let_def)

section \<open>The Create operations\<close>

text \<open>What a call of the client or of json.Unmarshal leaves unchanged.\<close>

lemma json_Unmarshal_frame:
  assumes "json_Unmarshal cd d T a w = (e, w')"
  shows "length (heap w') = length (heap w) \<and> take a (heap w') = take a (heap w)
         \<and> sent w' = sent w"
  using assms
  by (cases d) (auto simp: json_Unmarshal_def store_def split: prod.splits)

lemma Do_frame:
  assumes "Do c req v w = (res, w')"
  shows "length (heap w') = length (heap w)
         \<and> (case v of None \<Rightarrow> heap w' = heap w
                     | Some (T, a) \<Rightarrow> take a (heap w') = take a (heap w))"
proof (cases v)
  case None
  with assms show ?thesis by (auto simp: Do_nil)
next
  case (Some Ta)
  obtain T a where Ta: "Ta = (T, a)" by (cases Ta)
  show ?thesis
  proof (cases "roundTrip c req")
    case (Success resp)
    with assms Some Ta show ?thesis
      by (auto simp: Do_Success split: body.splits prod.splits dest: json_Unmarshal_frame)
  next
    case (NoResponse msg)
    with assms Some Ta show ?thesis by (auto simp: Do_NoResponse)
  next
    case (ErrorStatus resp msg)
    with assms Some Ta show ?thesis by (auto simp: Do_ErrorStatus)
  qed
qed

lemma CreateBoard_fresh:
  assumes "valid_ptr w p" and "CreateBoard c p w = ((Some a, r, None), w')"
  shows "length (heap w) \<le> a \<and> a < length (heap w') \<and> Some a \<noteq> p
         \<and> take (length (heap w)) (heap w') = heap w"
proof -
  from assms(1) have neq: "Some (length (heap w)) \<noteq> p"
    by (auto simp: valid_ptr_def)
  from assms(2) obtain req res where
    a: "a = length (heap w)" and
    d: "Do c req (Some (Board, length (heap w))) (w\<lparr>heap := heap w @ [zero (codec c) Board]\<rparr>)
          = (res, w')"
    by (auto simp: CreateBoard_def NewRequest_def new_def Let_def
          split: option.splits prod.splits if_splits)
  from Do_frame [OF d] a neq show ?thesis by simp
qed

lemma WebhookService_Create_fresh:
  assumes "valid_ptr w p" and "WebhookService_Create c p w = Return ((Some a, r, None), w')"
  shows "length (heap w) \<le> a \<and> a < length (heap w') \<and> Some a \<noteq> p
         \<and> take (length (heap w)) (heap w') = heap w"
proof -
  from assms(1) have neq: "Some (length (heap w)) \<noteq> p"
    by (auto simp: valid_ptr_def)
  from assms(2) obtain d req e where
    a: "a = length (heap w)" and
    d: "json_Unmarshal (codec c) d Webhook (length (heap w))
          (w\<lparr>sent := sent w @ [req], heap := heap w @ [zero (codec c) Webhook]\<rparr>) = (e, w')"
    by (auto simp: WebhookService_Create_def NewRequest_def new_def Let_def Do_nil
          split: option.splits prod.splits reply.splits sum.splits)
  from json_Unmarshal_frame [OF d] a neq show ?thesis by simp
qed

lemma UserService_Create_fresh:
  assumes "valid_ptr w p" and "UserService_Create c p w = Return ((Some a, r, None), w')"
  shows "length (heap w) \<le> a \<and> a < length (heap w') \<and> Some a \<noteq> p
         \<and> take (length (heap w)) (heap w') = heap w"
proof -
  from assms(1) have neq: "Some (length (heap w)) \<noteq> p"
    by (auto simp: valid_ptr_def)
  from assms(2) obtain d req e where
    a: "a = length (heap w)" and
    d: "json_Unmarshal (codec c) d User (length (heap w))
          (w\<lparr>sent := sent w @ [req], heap := heap w @ [zero (codec c) User]\<rparr>) = (e, w')"
    by (auto simp: UserService_Create_def NewRequest_def new_def Let_def Do_nil
          split: option.splits prod.splits reply.splits sum.splits)
  from json_Unmarshal_frame [OF d] a neq show ?thesis by simp
qed
text \<open>
  C5. When a create operation (CreateBoard, WebhookService.Create, UserService.Create)
  succeeds on an input pointer that is nil or refers to an allocated record, the record
  it returns did not exist before the call, so it is not the input record; every record
  that existed before the call, the input record among them, is unchanged after it.
\<close>

theorem Create_returns_fresh_record:
  assumes "f \<in> {(\<lambda>c p w. Return (CreateBoard c p w)), WebhookService_Create,
                UserService_Create}"
    and "valid_ptr w p"
    and "f c p w = Return ((Some a, r, None), w')"
  shows "length (heap w) \<le> a \<and> a < length (heap w') \<and> Some a \<noteq> p
         \<and> take (length (heap w)) (heap w') = heap w
         \<and> (\<forall>a0. p = Some a0 \<longrightarrow> load w' a0 = load w a0)"
proof -
  from assms have *: "length (heap w) \<le> a \<and> a < length (heap w') \<and> Some a \<noteq> p
         \<and> take (length (heap w)) (heap w') = heap w"
    using CreateBoard_fresh [of w p c a r w'] WebhookService_Create_fresh [of w p c a r w']
      UserService_Create_fresh [of w p c a r w']
    by auto
  have "load w' a0 = load w a0" if "p = Some a0" for a0
  proof -
    from that assms(2) have lt: "a0 < length (heap w)" by (simp add: valid_ptr_def)
    with * have "heap w' ! a0 = take (length (heap w)) (heap w') ! a0"
      by (metis nth_take)
    with * lt show ?thesis by (simp add: load_def)
  qed
  with * show ?thesis by blast
qed

lemmas eval_defs = NewRequest_def Do_nil Do_Success Do_ErrorStatus new_def Let_def
  ioutil_ReadAll_def json_Unmarshal_def load_def store_def fixed_client_def unit_codec_def
  three_objects_def created_def ptr_body_def find_field_def json_key_def field_get_def
  to_lower_def int_fits_def

lemma CreateBoard_created:
  "fst (CreateBoard (fixed_client (Success created)) (Some 0) three_objects)
     = (Some 3, Some created, None)"
  by (simp add: CreateBoard_def Board_def eval_defs)

lemma CreateBoard_created_ID:
  "result_field (snd (CreateBoard (fixed_client (Success created)) (Some 0) three_objects)) 3 ''ID''
     = Some (VInt 7)
   \<and> result_field (snd (CreateBoard (fixed_client (Success created)) (Some 0) three_objects)) 0 ''ID''
     = Some (VInt 0)"
  by (simp add: CreateBoard_def Board_def eval_defs result_field_def field_def)

lemma WebhookService_Create_created:
  "\<exists>w'. WebhookService_Create (fixed_client (Success created)) (Some 1) three_objects
     = Return ((Some 3, Some created, None), w')"
  by (simp add: WebhookService_Create_def Webhook_def eval_defs)

lemma UserService_Create_created:
  "\<exists>w'. UserService_Create (fixed_client (Success created)) (Some 2) three_objects
     = Return ((Some 3, Some created, None), w')"
  by (simp add: UserService_Create_def User_def eval_defs)

theorem Create_returns_fresh_record_witness:
  "valid_ptr three_objects (Some 0) \<and> valid_ptr three_objects (Some 1)
   \<and> valid_ptr three_objects (Some 2)
   \<and> (\<exists>w'. CreateBoard (fixed_client (Success created)) (Some 0) three_objects
               = ((Some 3, Some created, None), w')
             \<and> load w' 0 = load three_objects 0 \<and> take 3 (heap w') = heap three_objects)
   \<and> (\<exists>w'. WebhookService_Create (fixed_client (Success created)) (Some 1) three_objects
               = Return ((Some 3, Some created, None), w')
             \<and> load w' 1 = load three_objects 1 \<and> take 3 (heap w') = heap three_objects)
   \<and> (\<exists>w'. UserService_Create (fixed_client (Success created)) (Some 2) three_objects
               = Return ((Some 3, Some created, None), w')
             \<and> load w' 2 = load three_objects 2 \<and> take 3 (heap w') = heap three_objects)"
proof -
  let ?c = "fixed_client (Success created)"
  have len: "length (heap three_objects) = 3"
    by (simp add: three_objects_def)
  have v: "valid_ptr three_objects (Some 0)" "valid_ptr three_objects (Some 1)"
    "valid_ptr three_objects (Some 2)"
    by (simp_all add: valid_ptr_def three_objects_def)
  obtain w1 where w1: "CreateBoard ?c (Some 0) three_objects = ((Some 3, Some created, None), w1)"
    using CreateBoard_created by (cases "CreateBoard ?c (Some 0) three_objects") auto
  obtain w2 where w2: "WebhookService_Create ?c (Some 1) three_objects
                         = Return ((Some 3, Some created, None), w2)"
    using WebhookService_Create_created by blast
  obtain w3 where w3: "UserService_Create ?c (Some 2) three_objects
                         = Return ((Some 3, Some created, None), w3)"
    using UserService_Create_created by blast
  have "load w1 0 = load three_objects 0 \<and> take 3 (heap w1) = heap three_objects"
    using Create_returns_fresh_record
            [of "\<lambda>c p w. Return (CreateBoard c p w)" three_objects "Some 0" ?c 3
                "Some created" w1] v w1 len
    by simp
  moreover have "load w2 1 = load three_objects 1 \<and> take 3 (heap w2) = heap three_objects"
    using Create_returns_fresh_record
            [of WebhookService_Create three_objects "Some 1" ?c 3 "Some created" w2] v w2 len
    by simp
  moreover have "load w3 2 = load three_objects 2 \<and> take 3 (heap w3) = heap three_objects"
    using Create_returns_fresh_record
            [of UserService_Create three_objects "Some 2" ?c 3 "Some created" w3] v w3 len
    by simp
  ultimately show ?thesis using v w1 w2 w3 by blast
qed

text \<open>
  C6. WebhookService.Create and UserService.Create read the body themselves. With the
  request built: an error of the transport is returned as it is; a failure to read the
  body of a successful response gives the error "Could not read the returned data"; a
  body that is not JSON, or whose JSON does not fit the record, gives the error "Could
  not unmarshall the data into struct". Each comes with a nil decoded value and the
  response handle, the two errors differ, and neither is an error of the transport.
\<close>

theorem Create_error_kinds:
  assumes "(f, u, T) \<in> {(WebhookService_Create, ''/rest/webhooks/1.0/webhook'', Webhook),
                         (UserService_Create, ''/rest/api/2/user'', User)}"
    and "build_error c ''POST'' u (ptr_body w p) = None"
  shows "(\<forall>resp msg. roundTrip c \<lparr>Method = ''POST'', URL = u, ReqBody = ptr_body w p\<rparr>
                        = ErrorStatus resp msg \<longrightarrow>
            (\<exists>w'. f c p w = Return ((None, Some resp, Some (Upstream msg)), w')))
       \<and> (\<forall>msg. roundTrip c \<lparr>Method = ''POST'', URL = u, ReqBody = ptr_body w p\<rparr>
                        = NoResponse msg \<longrightarrow>
            (\<exists>w'. f c p w = Return ((None, None, Some (Upstream msg)), w')))
       \<and> (\<forall>resp msg. roundTrip c \<lparr>Method = ''POST'', URL = u, ReqBody = ptr_body w p\<rparr>
                        = Success resp \<and> Body resp = ReadFails msg \<longrightarrow>
            (\<exists>w'. f c p w = Return ((None, Some resp,
                      Some (Errorf ''Could not read the returned data'')), w')))
       \<and> (\<forall>resp. roundTrip c \<lparr>Method = ''POST'', URL = u, ReqBody = ptr_body w p\<rparr>
                        = Success resp \<and> Body resp = Bytes None \<longrightarrow>
            (\<exists>w'. f c p w = Return ((None, Some resp,
                      Some (Errorf ''Could not unmarshall the data into struct'')), w')))
       \<and> (\<forall>resp j. roundTrip c \<lparr>Method = ''POST'', URL = u, ReqBody = ptr_body w p\<rparr>
                        = Success resp \<and> Body resp = Bytes (Some j)
                      \<and> \<not> snd (unmarshal (codec c) T j (zero (codec c) T)) \<longrightarrow>
            (\<exists>w'. f c p w = Return ((None, Some resp,
                      Some (Errorf ''Could not unmarshall the data into struct'')), w')))
       \<and> Errorf ''Could not read the returned data''
           \<noteq> Errorf ''Could not unmarshall the data into struct''
       \<and> (\<forall>msg. Upstream msg \<noteq> Errorf ''Could not read the returned data''
                \<and> Upstream msg \<noteq> Errorf ''Could not unmarshall the data into struct'')"
proof -
  from assms(1) consider
      "f = WebhookService_Create" "u = ''/rest/webhooks/1.0/webhook''" "T = Webhook"
    | "f = UserService_Create" "u = ''/rest/api/2/user''" "T = User"
    by auto
  then show ?thesis
  proof cases
    case 1
    with assms(2) show ?thesis
      by (auto simp: WebhookService_Create_def NewRequest_def Do_nil new_def Let_def
            ioutil_ReadAll_def json_Unmarshal_def load_def store_def
            split: prod.splits)
  next
    case 2
    with assms(2) show ?thesis
      by (auto simp: UserService_Create_def NewRequest_def Do_nil new_def Let_def
            ioutil_ReadAll_def json_Unmarshal_def load_def store_def
            split: prod.splits)
  qed
qed

theorem Create_error_kinds_witness:
  "(\<exists>w'. WebhookService_Create (fixed_client not_found) (Some 1) three_objects
            = Return ((None, Some \<lparr>StatusCode = 404, Body = Bytes None\<rparr>,
                       Some (Upstream ''404 Not Found'')), w'))
   \<and> (\<exists>w'. WebhookService_Create (fixed_client (Success unreadable)) (Some 1) three_objects
            = Return ((None, Some unreadable,
                       Some (Errorf ''Could not read the returned data'')), w'))
   \<and> (\<exists>w'. WebhookService_Create (fixed_client (Success malformed)) (Some 1) three_objects
            = Return ((None, Some malformed,
                       Some (Errorf ''Could not unmarshall the data into struct'')), w'))
   \<and> (\<exists>w'. WebhookService_Create (fixed_client (Success unexpected)) (Some 1) three_objects
            = Return ((None, Some unexpected,
                       Some (Errorf ''Could not unmarshall the data into struct'')), w'))
   \<and> (\<exists>w'. UserService_Create (fixed_client not_found) (Some 2) three_objects
            = Return ((None, Some \<lparr>StatusCode = 404, Body = Bytes None\<rparr>,
                       Some (Upstream ''404 Not Found'')), w'))
   \<and> (\<exists>w'. UserService_Create (fixed_client (Success unreadable)) (Some 2) three_objects
            = Return ((None, Some unreadable,
                       Some (Errorf ''Could not read the returned data'')), w'))
   \<and> (\<exists>w'. UserService_Create (fixed_client (Success malformed)) (Some 2) three_objects
            = Return ((None, Some malformed,
                       Some (Errorf ''Could not unmarshall the data into struct'')), w'))
   \<and> (\<exists>w'. UserService_Create (fixed_client (Success unexpected)) (Some 2) three_objects
            = Return ((None, Some unexpected,
                       Some (Errorf ''Could not unmarshall the data into struct'')), w'))"
proof -
  have W: "(WebhookService_Create, ''/rest/webhooks/1.0/webhook'', Webhook)
             \<in> {(WebhookService_Create, ''/rest/webhooks/1.0/webhook'', Webhook),
                 (UserService_Create, ''/rest/api/2/user'', User)}"
    by simp
  have U: "(UserService_Create, ''/rest/api/2/user'', User)
             \<in> {(WebhookService_Create, ''/rest/webhooks/1.0/webhook'', Webhook),
                 (UserService_Create, ''/rest/api/2/user'', User)}"
    by simp
  have b: "build_error (fixed_client r) m u b = None" for r m u and b :: "unit reqbody"
    by (simp add: fixed_client_def)
  have rt: "roundTrip (fixed_client r) req = r" for r req
    by (simp add: fixed_client_def)
  have bodies: "Body unreadable = ReadFails ''connection reset''" "Body malformed = Bytes None"
    "Body unexpected = Bytes (Some (JArr []))"
    by (simp_all add: unreadable_def malformed_def unexpected_def)
  have bad: "\<not> snd (unmarshal (codec (fixed_client r)) Webhook (JArr [])
                      (zero (codec (fixed_client r)) Webhook))"
    "\<not> snd (unmarshal (codec (fixed_client r)) User (JArr [])
             (zero (codec (fixed_client r)) User))" for r
    by (simp_all add: Webhook_def User_def)
  show ?thesis
    using Create_error_kinds [OF W b, of not_found three_objects "Some 1"]
      Create_error_kinds [OF W b, of "Success unreadable" three_objects "Some 1"]
      Create_error_kinds [OF W b, of "Success malformed" three_objects "Some 1"]
      Create_error_kinds [OF W b, of "Success unexpected" three_objects "Some 1"]
      Create_error_kinds [OF U b, of not_found three_objects "Some 2"]
      Create_error_kinds [OF U b, of "Success unreadable" three_objects "Some 2"]
      Create_error_kinds [OF U b, of "Success malformed" three_objects "Some 2"]
      Create_error_kinds [OF U b, of "Success unexpected" three_objects "Some 2"]
    unfolding rt
    by (simp add: not_found_def bodies bad)
qed

section \<open>The Password field of a User\<close>

text \<open>
  A field whose tag is \<^verbatim>\<open>json:"-"\<close> has no key, so no key of a document is decoded into
  it: decoding leaves it as it was.
\<close>

lemma find_field_key:
  assumes "find_field fs k = Some f"
  shows "f \<in> set fs \<and> json_key f \<noteq> None"
  using assms
  by (auto simp: find_field_def find_Some_iff split: option.splits)

lemma unmarshal_object_skips:
  assumes "\<forall>f\<in>set fs. fst f = n \<longrightarrow> json_key f = None"
  shows "map_of (fst (unmarshal_object cd fs kvs vals)) n = map_of vals n"
proof (induction kvs arbitrary: vals)
  case Nil
  show ?case by simp
next
  case (Cons kv kvs)
  obtain k j where kv: "kv = (k, j)" by (cases kv)
  show ?case
  proof (cases "find_field fs k")
    case None
    with kv Cons show ?thesis by simp
  next
    case (Some f)
    obtain name tag T where f: "f = (name, tag, T)" by (cases f)
    from find_field_key [OF Some] assms f have "name \<noteq> n" by auto
    with kv Some f Cons show ?thesis
      by (simp add: update_conv' split_beta)
  qed
qed

lemma unmarshal_struct_skips:
  assumes "\<forall>f\<in>set fs. fst f = n \<longrightarrow> json_key f = None"
  shows "field n (fst (unmarshal cd (TStruct fs) j v)) = field n v"
proof (cases j)
  case (JObj kvs)
  then show ?thesis
    using unmarshal_object_skips [OF assms, of cd kvs]
    by (cases v) (simp_all add: field_def split_beta)
qed simp_all


lemma no_password_zero: "no_password (zero cd User)"
  by (simp add: no_password_def field_def User_def)

lemma unmarshal_User_no_password:
  "no_password (fst (unmarshal cd User j v)) = no_password v"
  unfolding no_password_def User_def
  by (subst unmarshal_struct_skips) (auto simp: json_key_def)

lemma unmarshal_array_User_no_password:
  "\<forall>x\<in>set (fst (unmarshal_array cd User js)). no_password x"
  by (induction js)
     (simp_all add: split_beta unmarshal_User_no_password no_password_zero)


lemma unmarshal_Users_no_password:
  "all_no_password v \<Longrightarrow> all_no_password (fst (unmarshal cd (TSlice User) j v))"
  using unmarshal_array_User_no_password [of cd]
  by (cases j) (simp_all add: all_no_password_def split_beta list_all_iff)

lemma json_Unmarshal_target:
  assumes "json_Unmarshal cd d T a w = (e, w')" and "a < length (heap w)"
    and "P (heap w ! a)" and "\<And>j v. P v \<Longrightarrow> P (fst (unmarshal cd T j v))"
  shows "a < length (heap w') \<and> P (heap w' ! a)"
  using assms
  by (cases d) (auto simp: json_Unmarshal_def store_def load_def split_beta)

lemma Do_target:
  assumes "Do c req (Some (T, a)) w = (res, w')" and "a < length (heap w)"
    and "P (heap w ! a)" and "\<And>j v. P v \<Longrightarrow> P (fst (unmarshal (codec c) T j v))"
  shows "a < length (heap w') \<and> P (heap w' ! a)"
proof (cases "roundTrip c req")
  case (Success resp)
  show ?thesis
  proof (cases "Body resp")
    case (ReadFails msg)
    with Success assms show ?thesis by (auto simp: Do_Success)
  next
    case (Bytes d)
    with Success assms(1) obtain e where
      "json_Unmarshal (codec c) d T a (w\<lparr>sent := sent w @ [req]\<rparr>) = (e, w')"
      by (auto simp: Do_Success split: prod.splits)
    from json_Unmarshal_target [OF this, of P] assms(2-) show ?thesis by simp
  qed
next
  case (NoResponse msg)
  with assms show ?thesis by (auto simp: Do_NoResponse)
next
  case (ErrorStatus resp msg)
  with assms show ?thesis by (auto simp: Do_ErrorStatus)
qed

lemma UserService_Get_no_password:
  assumes "UserService_Get c username w = ((Some a, r, e), w')"
  shows "result_field w' a ''Password'' = Some (VString [])"
proof -
  from assms obtain req res where
    a: "a = length (heap w)" and
    d: "Do c req (Some (User, length (heap w))) (w\<lparr>heap := heap w @ [zero (codec c) User]\<rparr>)
          = (res, w')"
    by (auto simp: UserService_Get_def NewRequest_def new_def Let_def
          split: option.splits prod.splits if_splits)
  have "length (heap w) < length (heap w') \<and> no_password (heap w' ! length (heap w))"
    by (rule Do_target [OF d]) (simp_all add: unmarshal_User_no_password no_password_zero)
  with a show ?thesis
    by (simp add: result_field_def load_def no_password_def)
qed

lemma UserService_Myself_no_password:
  assumes "UserService_Myself c w = ((Some a, r, e), w')"
  shows "result_field w' a ''Password'' = Some (VString [])"
proof -
  from assms obtain req res where
    a: "a = length (heap w)" and
    d: "Do c req (Some (User, length (heap w))) (w\<lparr>heap := heap w @ [zero (codec c) User]\<rparr>)
          = (res, w')"
    by (auto simp: UserService_Myself_def NewRequest_def new_def Let_def
          split: option.splits prod.splits if_splits)
  have "length (heap w) < length (heap w') \<and> no_password (heap w' ! length (heap w))"
    by (rule Do_target [OF d]) (simp_all add: unmarshal_User_no_password no_password_zero)
  with a show ?thesis
    by (simp add: result_field_def load_def no_password_def)
qed

lemma UserService_Create_no_password:
  assumes "UserService_Create c p w = Return ((Some a, r, e), w')"
  shows "result_field w' a ''Password'' = Some (VString [])"
proof -
  from assms obtain d req e' where
    a: "a = length (heap w)" and
    d: "json_Unmarshal (codec c) d User (length (heap w))
          (w\<lparr>sent := sent w @ [req], heap := heap w @ [zero (codec c) User]\<rparr>) = (e', w')"
    by (auto simp: UserService_Create_def NewRequest_def new_def Let_def Do_nil
          split: option.splits prod.splits reply.splits sum.splits)
  have "length (heap w) < length (heap w') \<and> no_password (heap w' ! length (heap w))"
    by (rule json_Unmarshal_target [OF d])
       (simp_all add: unmarshal_User_no_password no_password_zero)
  with a show ?thesis
    by (simp add: result_field_def load_def no_password_def)
qed

lemma UserService_PermissionSearch_no_password:
  assumes "UserService_PermissionSearch c search w = ((Some a, r, e), w')"
    and "load w' a = Some (VSlice (Some xs))" and "x \<in> set xs"
  shows "field ''Password'' x = Some (VString [])"
proof -
  from assms(1) obtain req res where
    a: "a = length (heap w)" and
    d: "Do c req (Some (TSlice User, length (heap w))) (w\<lparr>heap := heap w @ [VSlice (Some [])]\<rparr>)
          = (res, w')"
    by (auto simp: UserService_PermissionSearch_def NewRequest_def make_slice_def Let_def
          split: option.splits prod.splits if_splits)
  have "length (heap w) < length (heap w') \<and> all_no_password (heap w' ! length (heap w))"
    by (rule Do_target [OF d])
       (simp_all add: unmarshal_Users_no_password, simp add: all_no_password_def)
  with a assms(2,3) show ?thesis
    by (auto simp: load_def all_no_password_def list_all_iff no_password_def split: if_splits)
qed

text \<open>
  C9. Whatever the response body is, the User that UserService.Get, Myself or Create
  returns has the empty string as its Password, and so has every User of the slice
  that PermissionSearch returns.
\<close>

theorem Password_never_decoded:
  "(UserService_Get c username w = ((Some a, r, e), w')
      \<longrightarrow> result_field w' a ''Password'' = Some (VString []))
   \<and> (UserService_Myself c w = ((Some a, r, e), w')
      \<longrightarrow> result_field w' a ''Password'' = Some (VString []))
   \<and> (UserService_Create c p w = Return ((Some a, r, e), w')
      \<longrightarrow> result_field w' a ''Password'' = Some (VString []))
   \<and> (UserService_PermissionSearch c search w = ((Some a, r, e), w')
      \<longrightarrow> (\<forall>xs. load w' a = Some (VSlice (Some xs))
            \<longrightarrow> (\<forall>x\<in>set xs. field ''Password'' x = Some (VString []))))"
  using UserService_Get_no_password [of c username w a r e w']
    UserService_Myself_no_password [of c w a r e w']
    UserService_Create_no_password [of c p w a r e w']
    UserService_PermissionSearch_no_password [of c search w a r e w']
  by blast

lemma UserService_Get_bob:
  "\<exists>w'. UserService_Get (fixed_client (Success bob_page)) ''bob'' world0
           = ((Some 0, Some bob_page, None), w')
         \<and> result_field w' 0 ''Name'' = Some (VString ''bob'')"
  by (simp add: UserService_Get_def User_def eval_defs world0_def bob_page_def bob_def
        result_field_def field_def)

lemma UserService_Myself_bob:
  "\<exists>w'. UserService_Myself (fixed_client (Success bob_page)) world0
           = ((Some 0, Some bob_page, None), w')
         \<and> result_field w' 0 ''Name'' = Some (VString ''bob'')"
  by (simp add: UserService_Myself_def User_def eval_defs world0_def bob_page_def bob_def
        result_field_def field_def)

lemma UserService_Create_bob:
  "\<exists>w'. UserService_Create (fixed_client (Success bob_page)) (Some 2) three_objects
           = Return ((Some 3, Some bob_page, None), w')
         \<and> result_field w' 3 ''Name'' = Some (VString ''bob'')"
  by (simp add: UserService_Create_def User_def eval_defs bob_page_def bob_def
        result_field_def field_def)

lemma UserService_PermissionSearch_bobs:
  "\<exists>w' x y. UserService_PermissionSearch (fixed_client (Success bobs_page)) no_filter world0
           = ((Some 0, Some bobs_page, None), w')
         \<and> load w' 0 = Some (VSlice (Some [x, y]))"
  by (simp add: UserService_PermissionSearch_def User_def eval_defs world0_def bobs_page_def
        bob_def make_slice_def)

theorem Password_never_decoded_witness:
  "(\<exists>w'. UserService_Get (fixed_client (Success bob_page)) ''bob'' world0
            = ((Some 0, Some bob_page, None), w')
          \<and> result_field w' 0 ''Name'' = Some (VString ''bob'')
          \<and> result_field w' 0 ''Password'' = Some (VString []))
   \<and> (\<exists>w'. UserService_Myself (fixed_client (Success bob_page)) world0
            = ((Some 0, Some bob_page, None), w')
          \<and> result_field w' 0 ''Name'' = Some (VString ''bob'')
          \<and> result_field w' 0 ''Password'' = Some (VString []))
   \<and> (\<exists>w'. UserService_Create (fixed_client (Success bob_page)) (Some 2) three_objects
            = Return ((Some 3, Some bob_page, None), w')
          \<and> result_field w' 3 ''Name'' = Some (VString ''bob'')
          \<and> result_field w' 3 ''Password'' = Some (VString []))
   \<and> (\<exists>w' x y. UserService_PermissionSearch (fixed_client (Success bobs_page)) no_filter world0
            = ((Some 0, Some bobs_page, None), w')
          \<and> load w' 0 = Some (VSlice (Some [x, y]))
          \<and> field ''Password'' x = Some (VString [])
          \<and> field ''Password'' y = Some (VString []))"
proof -
  obtain w1 where w1: "UserService_Get (fixed_client (Success bob_page)) ''bob'' world0
                         = ((Some 0, Some bob_page, None), w1)"
    "result_field w1 0 ''Name'' = Some (VString ''bob'')"
    using UserService_Get_bob by blast
  obtain w2 where w2: "UserService_Myself (fixed_client (Success bob_page)) world0
                         = ((Some 0, Some bob_page, None), w2)"
    "result_field w2 0 ''Name'' = Some (VString ''bob'')"
    using UserService_Myself_bob by blast
  obtain w3 where w3: "UserService_Create (fixed_client (Success bob_page)) (Some 2) three_objects
                         = Return ((Some 3, Some bob_page, None), w3)"
    "result_field w3 3 ''Name'' = Some (VString ''bob'')"
    using UserService_Create_bob by blast
  obtain w4 x y where w4:
    "UserService_PermissionSearch (fixed_client (Success bobs_page)) no_filter world0
       = ((Some 0, Some bobs_page, None), w4)"
    "load w4 0 = Some (VSlice (Some [x, y]))"
    using UserService_PermissionSearch_bobs by blast
  have "result_field w1 0 ''Password'' = Some (VString [])"
    using Password_never_decoded
            [of "fixed_client (Success bob_page)" "''bob''" world0 0 "Some bob_page" None w1]
      w1 by simp
  moreover have "result_field w2 0 ''Password'' = Some (VString [])"
    using Password_never_decoded
            [of "fixed_client (Success bob_page)" _ world0 0 "Some bob_page" None w2]
      w2 by simp
  moreover have "result_field w3 3 ''Password'' = Some (VString [])"
    using Password_never_decoded
            [of "fixed_client (Success bob_page)" _ three_objects 3 "Some bob_page" None w3
                "Some 2"]
      w3 by simp
  moreover have "field ''Password'' x = Some (VString []) \<and> field ''Password'' y = Some (VString [])"
    using Password_never_decoded
            [of "fixed_client (Success bobs_page)" _ world0 0 "Some bobs_page" None w4 _
                no_filter]
      w4 by simp
  ultimately show ?thesis using w1 w2 w3 w4 by blast
qed

section \<open>The fixed page size\<close>

lemma query_of_append:
  assumes "CHR ''?'' \<notin> set p" and "CHR ''#'' \<notin> set p" and "CHR ''#'' \<notin> set q"
  shows "query_of (p @ CHR ''?'' # q) = q"
proof -
  have A: "takeWhile (\<lambda>c. c \<noteq> CHR ''#'') (p @ CHR ''?'' # q) = p @ CHR ''?'' # q"
    using assms(2,3) by (auto simp: takeWhile_eq_all_conv)
  have B: "dropWhile (\<lambda>c. c \<noteq> CHR ''?'') (p @ CHR ''?'' # q) = CHR ''?'' # q"
    using assms(1) by (induction p) auto
  show ?thesis
    unfolding query_of_def A B by simp
qed

lemma query_of_board:
  assumes "CHR ''?'' \<notin> set boardID" and "CHR ''#'' \<notin> set boardID"
    and "CHR ''?'' \<notin> set s" and "CHR ''#'' \<notin> set s"
  shows "query_of (''rest/agile/1.0/board/'' @ boardID @ s @ ''?maxResults=1000'')
           = ''maxResults=1000''"
  using query_of_append [of "''rest/agile/1.0/board/'' @ boardID @ s" "''maxResults=1000''"]
    assms by simp

text \<open>
  C3 as amended. For every board identifier (and epic identifier) that contains neither
  a question mark nor a number sign, GetAllSprints, GetEpicsForBoard,
  GetIssuesForBacklog, GetIssuesForEpic and GetIssuesWithoutEpic issue one GET (none
  when the client cannot build the request) whose URL ends in the literal
  \<^verbatim>\<open>?maxResults=1000\<close> and whose query string is exactly \<^verbatim>\<open>maxResults=1000\<close>.
\<close>

theorem page_size_is_fixed:
  assumes "CHR ''?'' \<notin> set boardID" and "CHR ''#'' \<notin> set boardID"
    and "CHR ''?'' \<notin> set epicID" and "CHR ''#'' \<notin> set epicID"
  shows "issued w (snd (GetAllSprints c boardID w))
           = one_GET c (''rest/agile/1.0/board/'' @ boardID @ ''/sprint?maxResults=1000'')
       \<and> query_of (''rest/agile/1.0/board/'' @ boardID @ ''/sprint?maxResults=1000'')
           = ''maxResults=1000''
       \<and> issued w (snd (GetEpicsForBoard c boardID w))
           = one_GET c (''rest/agile/1.0/board/'' @ boardID @ ''/epic?maxResults=1000'')
       \<and> query_of (''rest/agile/1.0/board/'' @ boardID @ ''/epic?maxResults=1000'')
           = ''maxResults=1000''
       \<and> issued w (snd (GetIssuesForBacklog c boardID w))
           = one_GET c (''rest/agile/1.0/board/'' @ boardID @ ''/backlog?maxResults=1000'')
       \<and> query_of (''rest/agile/1.0/board/'' @ boardID @ ''/backlog?maxResults=1000'')
           = ''maxResults=1000''
       \<and> issued w (snd (GetIssuesForEpic c boardID epicID w))
           = one_GET c (''rest/agile/1.0/board/'' @ boardID @ ''/epic/'' @ epicID
                          @ ''/issue?maxResults=1000'')
       \<and> query_of (''rest/agile/1.0/board/'' @ boardID @ ''/epic/'' @ epicID
                          @ ''/issue?maxResults=1000'')
           = ''maxResults=1000''
       \<and> issued w (snd (GetIssuesWithoutEpic c boardID w))
           = one_GET c (''rest/agile/1.0/board/'' @ boardID @ ''/epic/none/issue?maxResults=1000'')
       \<and> query_of (''rest/agile/1.0/board/'' @ boardID @ ''/epic/none/issue?maxResults=1000'')
           = ''maxResults=1000''"
proof -
  have "issued w (snd (GetAllSprints c boardID w))
           = one_GET c (''rest/agile/1.0/board/'' @ boardID @ ''/sprint?maxResults=1000'')"
    by (simp add: GetAllSprints_def NewRequest_def new_def issued_def split_beta one_GET_def sent_Do Let_def
          split: option.splits)
  moreover have "issued w (snd (GetEpicsForBoard c boardID w))
           = one_GET c (''rest/agile/1.0/board/'' @ boardID @ ''/epic?maxResults=1000'')"
    by (simp add: GetEpicsForBoard_def NewRequest_def new_def issued_def split_beta one_GET_def sent_Do Let_def
          split: option.splits)
  moreover have "issued w (snd (GetIssuesForBacklog c boardID w))
           = one_GET c (''rest/agile/1.0/board/'' @ boardID @ ''/backlog?maxResults=1000'')"
    by (simp add: GetIssuesForBacklog_def NewRequest_def new_def issued_def split_beta one_GET_def sent_Do Let_def
          split: option.splits)
  moreover have "issued w (snd (GetIssuesForEpic c boardID epicID w))
           = one_GET c (''rest/agile/1.0/board/'' @ boardID @ ''/epic/'' @ epicID
                          @ ''/issue?maxResults=1000'')"
    by (simp add: GetIssuesForEpic_def NewRequest_def new_def issued_def split_beta one_GET_def sent_Do Let_def
          split: option.splits)
  moreover have "issued w (snd (GetIssuesWithoutEpic c boardID w))
           = one_GET c (''rest/agile/1.0/board/'' @ boardID @ ''/epic/none/issue?maxResults=1000'')"
    by (simp add: GetIssuesWithoutEpic_def NewRequest_def new_def issued_def split_beta one_GET_def sent_Do Let_def
          split: option.splits)
  moreover have "query_of (''rest/agile/1.0/board/'' @ boardID @ ''/sprint?maxResults=1000'')
           = ''maxResults=1000''"
    using query_of_board [OF assms(1,2), of "''/sprint''"] by simp
  moreover have "query_of (''rest/agile/1.0/board/'' @ boardID @ ''/epic?maxResults=1000'')
           = ''maxResults=1000''"
    using query_of_board [OF assms(1,2), of "''/epic''"] by simp
  moreover have "query_of (''rest/agile/1.0/board/'' @ boardID @ ''/backlog?maxResults=1000'')
           = ''maxResults=1000''"
    using query_of_board [OF assms(1,2), of "''/backlog''"] by simp
  moreover have "query_of (''rest/agile/1.0/board/'' @ boardID @ ''/epic/'' @ epicID
                          @ ''/issue?maxResults=1000'') = ''maxResults=1000''"
    using query_of_board [OF assms(1,2), of "''/epic/'' @ epicID @ ''/issue''"] assms(3,4)
    by simp
  moreover have "query_of (''rest/agile/1.0/board/'' @ boardID
                          @ ''/epic/none/issue?maxResults=1000'') = ''maxResults=1000''"
    using query_of_board [OF assms(1,2), of "''/epic/none/issue''"] by simp
  ultimately show ?thesis by (intro conjI)
qed

theorem page_size_is_fixed_witness:
  "CHR ''?'' \<notin> set ''10'' \<and> CHR ''#'' \<notin> set ''10''
   \<and> CHR ''?'' \<notin> set ''7'' \<and> CHR ''#'' \<notin> set ''7''
   \<and> issued world0 (snd (GetAllSprints (fixed_client not_found) ''10'' world0))
       = [\<lparr>Method = ''GET'', URL = ''rest/agile/1.0/board/10/sprint?maxResults=1000'',
           ReqBody = NoBody\<rparr>]
   \<and> query_of ''rest/agile/1.0/board/10/sprint?maxResults=1000'' = ''maxResults=1000''
   \<and> issued world0 (snd (GetIssuesForEpic (fixed_client not_found) ''10'' ''7'' world0))
       = [\<lparr>Method = ''GET'', URL = ''rest/agile/1.0/board/10/epic/7/issue?maxResults=1000'',
           ReqBody = NoBody\<rparr>]
   \<and> query_of ''rest/agile/1.0/board/10/epic/7/issue?maxResults=1000'' = ''maxResults=1000''"
  using page_size_is_fixed [of "''10''" "''7''" world0 "fixed_client not_found"]
  by (simp add: one_GET_def fixed_client_def)

text \<open>
  C3 as stated fails: the board identifier is put into the URL as it is, so for the
  identifier \<^verbatim>\<open>10?maxResults=5\<close> the query string of the request starts with the
  caller's text.
\<close>

theorem page_size_from_caller:
  "issued world0 (snd (GetAllSprints (fixed_client not_found) ''10?maxResults=5'' world0))
     = [\<lparr>Method = ''GET'', URL = ''rest/agile/1.0/board/10?maxResults=5/sprint?maxResults=1000'',
         ReqBody = NoBody\<rparr>]
   \<and> query_of ''rest/agile/1.0/board/10?maxResults=5/sprint?maxResults=1000''
     = ''maxResults=5/sprint?maxResults=1000''"
  by (simp add: GetAllSprints_def issued_def eval_defs world0_def not_found_def query_of_def)

section \<open>The query string of a permission search\<close>

subsection \<open>Escaping\<close>

lemma hex_digits:
  "\<forall>n\<in>set [0..<16]. ishex (upperhex n) \<and> unhex (upperhex n) = n
      \<and> upperhex n \<notin> {CHR ''&'', CHR ''='', CHR '';'', CHR ''#''}"
  by code_simp

lemma upperhex_facts:
  assumes "n < 16"
  shows "ishex (upperhex n)" and "unhex (upperhex n) = n"
    and "upperhex n \<notin> {CHR ''&'', CHR ''='', CHR '';'', CHR ''#''}"
  using hex_digits assms by auto

lemma shouldEscape_reserved:
  "shouldEscape CHR ''&''" "shouldEscape CHR ''=''" "shouldEscape CHR '';''"
  "shouldEscape CHR ''%''" "shouldEscape CHR ''+''" "shouldEscape CHR ''#''"
  by (simp_all add: shouldEscape_def)

lemma of_char_div_16: "(of_char c :: nat) div 16 < 16"
proof -
  have "(of_char c :: nat) < 256" by simp
  then show ?thesis by arith
qed

lemma escape_byte_chars:
  assumes "c' \<in> set (escape_byte c)"
  shows "c' \<notin> {CHR ''&'', CHR ''='', CHR '';'', CHR ''#''}"
proof (cases "c = CHR '' ''")
  case True
  with assms show ?thesis by (simp add: escape_byte_def)
next
  case False
  show ?thesis
  proof (cases "shouldEscape c")
    case True
    with False assms have "c' = CHR ''%'' \<or> c' = upperhex (of_char c div 16)
        \<or> c' = upperhex (of_char c mod 16)"
      by (simp add: escape_byte_def)
    then show ?thesis
      using upperhex_facts(3) [OF of_char_div_16 [of c]]
        upperhex_facts(3) [of "of_char c mod 16"]
      by auto
  next
    case no: False
    with False assms have "c' = c" by (simp add: escape_byte_def)
    with no shouldEscape_reserved show ?thesis by auto
  qed
qed

lemma QueryEscape_chars:
  "c \<in> set (QueryEscape s) \<Longrightarrow> c \<notin> {CHR ''&'', CHR ''='', CHR '';'', CHR ''#''}"
  using escape_byte_chars by (fastforce simp: QueryEscape_def)

lemma QueryUnescape_escape_byte:
  "QueryUnescape (escape_byte c @ t) = map_option ((#) c) (QueryUnescape t)"
proof (cases "c = CHR '' ''")
  case True
  then show ?thesis by (simp add: escape_byte_def)
next
  case False
  show ?thesis
  proof (cases "shouldEscape c")
    case True
    have "of_char c div 16 * 16 + of_char c mod 16 = (of_char c :: nat)"
      by simp
    then have "char_of (of_char c div 16 * 16 + of_char c mod 16 :: nat) = c"
      by simp
    with True False show ?thesis
      using upperhex_facts(1,2) [OF of_char_div_16 [of c]]
        upperhex_facts(1,2) [of "of_char c mod 16"]
      by (simp add: escape_byte_def)
  next
    case no: False
    with shouldEscape_reserved have "c \<noteq> CHR ''%''" "c \<noteq> CHR ''+''" by auto
    with no False show ?thesis by (simp add: escape_byte_def)
  qed
qed

lemma QueryUnescape_QueryEscape: "QueryUnescape (QueryEscape s) = Some s"
proof (induction s)
  case Nil
  show ?case by (simp add: QueryEscape_def)
next
  case (Cons c s)
  have "QueryEscape (c # s) = escape_byte c @ QueryEscape s"
    by (simp add: QueryEscape_def)
  with Cons show ?case
    by (simp add: QueryUnescape_escape_byte)
qed

subsection \<open>Splitting and joining\<close>

lemma split_on_free: "sep \<notin> set p \<Longrightarrow> split_on sep p = [p]"
  by (induction p) auto

lemma split_on_ne: "split_on sep s \<noteq> []"
  by (induction s) (auto split: list.splits)

lemma split_on_append: "split_on sep (a @ sep # b) = split_on sep a @ split_on sep b"
  using split_on_ne [of sep]
  by (induction a) (auto split: list.splits)

lemma split_on_joined:
  assumes "\<forall>p\<in>set ps. p \<noteq> [] \<and> CHR ''&'' \<notin> set p"
  shows "split_on CHR ''&''
           (fold (\<lambda>p buf. (if buf \<noteq> [] then buf @ ''&'' else buf) @ p) ps buf)
         = (if buf = [] \<and> ps \<noteq> [] then ps else split_on CHR ''&'' buf @ ps)"
  using assms
proof (induction ps arbitrary: buf)
  case Nil
  show ?case by simp
next
  case (Cons p ps)
  then have p: "p \<noteq> []" "CHR ''&'' \<notin> set p" and ps: "\<forall>p\<in>set ps. p \<noteq> [] \<and> CHR ''&'' \<notin> set p"
    by auto
  show ?case
  proof (cases "buf = []")
    case True
    with Cons.IH [OF ps, of p] p show ?thesis
      by (simp add: split_on_free)
  next
    case False
    with Cons.IH [OF ps, of "buf @ ''&'' @ p"] p show ?thesis
      by (simp add: split_on_append split_on_free)
  qed
qed

subsection \<open>Encoding, then parsing\<close>


lemma piece_chars:
  "piece kx \<noteq> [] \<and> CHR ''&'' \<notin> set (piece kx) \<and> CHR '';'' \<notin> set (piece kx)
   \<and> CHR ''#'' \<notin> set (piece kx)"
  using QueryEscape_chars [of "CHR ''&''"] QueryEscape_chars [of "CHR '';''"]
    QueryEscape_chars [of "CHR ''#''"]
  by (auto simp: piece_def)

lemma Cut_piece: "Cut (piece kx) CHR ''='' = (QueryEscape (fst kx), QueryEscape (snd kx))"
proof -
  have no: "\<forall>c\<in>set (QueryEscape (fst kx)). c \<noteq> CHR ''=''"
    using QueryEscape_chars [of "CHR ''=''"] by auto
  have "takeWhile (\<lambda>c. c \<noteq> CHR ''='') (piece kx) = QueryEscape (fst kx)"
    using no by (simp add: piece_def takeWhile_append2)
  moreover have "dropWhile (\<lambda>c. c \<noteq> CHR ''='') (piece kx) = CHR ''='' # QueryEscape (snd kx)"
    using no by (simp add: piece_def dropWhile_append2)
  ultimately show ?thesis by (simp add: Cut_def)
qed

lemma update_fresh: "k \<notin> fst ` set al \<Longrightarrow> AList.update k v al = al @ [(k, v)]"
  by (induction al) auto

lemma parse_pair_piece:
  assumes "fst kx \<notin> fst ` set m"
  shows "parse_pair (piece kx) (m, ok) = (m @ [one_value kx], ok)"
proof -
  from assms have "map_of m (fst kx) = None"
    by (simp add: map_of_eq_None_iff)
  with assms piece_chars [of kx] show ?thesis
    by (simp add: parse_pair_def Cut_piece QueryUnescape_QueryEscape update_fresh one_value_def)
qed

lemma fold_parse_pair:
  assumes "distinct (map fst kxs)" and "fst ` set kxs \<inter> fst ` set m = {}"
  shows "fold parse_pair (map piece kxs) (m, ok) = (m @ map one_value kxs, ok)"
  using assms
proof (induction kxs arbitrary: m)
  case Nil
  show ?case by simp
next
  case (Cons kx kxs)
  from Cons.prems have fresh: "fst kx \<notin> fst ` set m" by auto
  from Cons.prems have "distinct (map fst kxs)"
    and "fst ` set kxs \<inter> fst ` set (m @ [one_value kx]) = {}"
    by (auto simp: one_value_def)
  from Cons.IH [OF this] parse_pair_piece [OF fresh] show ?case by simp
qed

lemma fold_keys:
  assumes "\<forall>k\<in>set ks. map_of v k = Some [f k]"
  shows "fold (\<lambda>k buf.
            fold (\<lambda>x buf. (if buf \<noteq> [] then buf @ ''&'' else buf)
                            @ QueryEscape k @ ''='' @ QueryEscape x)
                 (case map_of v k of Some xs \<Rightarrow> xs | None \<Rightarrow> []) buf) ks buf
         = fold (\<lambda>p buf. (if buf \<noteq> [] then buf @ ''&'' else buf) @ p)
             (map (\<lambda>k. piece (k, f k)) ks) buf"
  using assms
  by (induction ks arbitrary: buf) (simp_all add: piece_def)

lemma fst_one_value: "fst \<circ> one_value = fst"
  by (simp add: fun_eq_iff one_value_def)

lemma map_of_one_value:
  assumes "distinct (map fst kxs)" and "kx \<in> set kxs"
  shows "map_of (map one_value kxs) (fst kx) = Some [snd kx]"
proof -
  from assms(1) have "distinct (map fst (map one_value kxs))"
    by (simp add: fst_one_value)
  moreover from assms(2) have "(fst kx, [snd kx]) \<in> set (map one_value kxs)"
    by (force simp: one_value_def)
  ultimately show ?thesis by (rule map_of_is_SomeI)
qed

lemma Values_Encode_one_value:
  assumes "distinct (map fst kxs)" and "sorted (map fst kxs)"
  shows "Values_Encode (map one_value kxs)
           = fold (\<lambda>p buf. (if buf \<noteq> [] then buf @ ''&'' else buf) @ p) (map piece kxs) []"
proof -
  have look: "\<forall>k\<in>set (map fst kxs).
                map_of (map one_value kxs) k = Some [the (map_of kxs k)]"
  proof
    fix k assume "k \<in> set (map fst kxs)"
    then obtain x where kx: "(k, x) \<in> set kxs" by auto
    with assms(1) have "map_of kxs k = Some x" by (rule map_of_is_SomeI)
    with map_of_one_value [OF assms(1) kx] show "map_of (map one_value kxs) k = Some [the (map_of kxs k)]"
      by simp
  qed
  have same: "map (\<lambda>k. piece (k, the (map_of kxs k))) (map fst kxs) = map piece kxs"
  proof (rule nth_equalityI)
    show "length (map (\<lambda>k. piece (k, the (map_of kxs k))) (map fst kxs)) = length (map piece kxs)"
      by simp
  next
    fix i assume "i < length (map (\<lambda>k. piece (k, the (map_of kxs k))) (map fst kxs))"
    then have i: "i < length kxs" by simp
    then have "(fst (kxs ! i), snd (kxs ! i)) \<in> set kxs" by simp
    with assms(1) have "map_of kxs (fst (kxs ! i)) = Some (snd (kxs ! i))"
      by (rule map_of_is_SomeI)
    with i show "map (\<lambda>k. piece (k, the (map_of kxs k))) (map fst kxs) ! i = map piece kxs ! i"
      by simp
  qed
  from assms(2) have srt: "sort (map fst (map one_value kxs)) = map fst kxs"
    by (simp add: fst_one_value sorted_sort_id)
  show ?thesis
    unfolding Values_Encode_def srt
    by (simp only: fold_keys [OF look] same)
qed

lemma ParseQuery_Values_Encode:
  assumes "distinct (map fst kxs)" and "sorted (map fst kxs)"
  shows "ParseQuery (Values_Encode (map one_value kxs)) = (map one_value kxs, True)"
proof (cases "kxs = []")
  case True
  then show ?thesis
    by (simp add: ParseQuery_def Values_Encode_def parse_pair_def)
next
  case False
  have "\<forall>p\<in>set (map piece kxs). p \<noteq> [] \<and> CHR ''&'' \<notin> set p"
    using piece_chars by auto
  from split_on_joined [OF this, of "[]"] False
  have "split_on CHR ''&'' (Values_Encode (map one_value kxs)) = map piece kxs"
    by (simp add: Values_Encode_one_value [OF assms])
  with fold_parse_pair [OF assms(1), of "[]" True] show ?thesis
    by (simp add: ParseQuery_def)
qed

subsection \<open>PermissionSearch\<close>

lemma PermissionSearch_values_params:
  "PermissionSearch_values search = map one_value (PermissionSearch_params search)"
  by (simp add: PermissionSearch_values_def PermissionSearch_params_def Values_Set_def
        one_value_def Let_def)

lemma PermissionSearch_params_keys:
  "distinct (map fst (PermissionSearch_params search))
   \<and> sorted (map fst (PermissionSearch_params search))"
  by (simp add: PermissionSearch_params_def)

lemma joined_chars:
  assumes "\<forall>p\<in>set ps. c \<notin> set p" and "c \<notin> set buf" and "c \<noteq> CHR ''&''"
  shows "c \<notin> set (fold (\<lambda>p buf. (if buf \<noteq> [] then buf @ ''&'' else buf) @ p) ps buf)"
  using assms by (induction ps arbitrary: buf) auto

lemma PermissionSearch_query:
  "ParseQuery (Values_Encode (PermissionSearch_values search))
     = (map one_value (PermissionSearch_params search), True)
   \<and> CHR ''#'' \<notin> set (Values_Encode (PermissionSearch_values search))
   \<and> Values_Encode (PermissionSearch_values search) \<noteq> []"
proof -
  let ?q = "Values_Encode (PermissionSearch_values search)"
  note keys = PermissionSearch_params_keys [of search]
  have parse: "ParseQuery ?q = (map one_value (PermissionSearch_params search), True)"
    using ParseQuery_Values_Encode [of "PermissionSearch_params search"] keys
    by (simp add: PermissionSearch_values_params)
  have "\<forall>p\<in>set (map piece (PermissionSearch_params search)). CHR ''#'' \<notin> set p"
    using piece_chars by auto
  from joined_chars [OF this, of "[]"] have hash: "CHR ''#'' \<notin> set ?q"
    using Values_Encode_one_value [of "PermissionSearch_params search"] keys
    by (simp add: PermissionSearch_values_params)
  have "PermissionSearch_params search \<noteq> []"
    by (simp add: PermissionSearch_params_def)
  with parse have "?q \<noteq> []"
    by (auto simp: ParseQuery_def parse_pair_def)
  with parse hash show ?thesis by simp
qed

lemma PermissionSearch_url_query:
  "PermissionSearch_url search
     = ''/rest/api/2/user/permission/search?'' @ Values_Encode (PermissionSearch_values search)
   \<and> query_of (PermissionSearch_url search) = Values_Encode (PermissionSearch_values search)"
proof -
  let ?q = "Values_Encode (PermissionSearch_values search)"
  from PermissionSearch_query [of search] have q: "?q \<noteq> []" "CHR ''#'' \<notin> set ?q"
    by simp_all
  then have u: "PermissionSearch_url search = ''/rest/api/2/user/permission/search'' @ CHR ''?'' # ?q"
    by (simp add: PermissionSearch_url_def Let_def)
  from q(2) have "query_of (''/rest/api/2/user/permission/search'' @ CHR ''?'' # ?q) = ?q"
    by (intro query_of_append) simp_all
  with u show ?thesis by simp
qed

lemma issued_PermissionSearch:
  "issued w (snd (UserService_PermissionSearch c search w))
     = one_GET c (PermissionSearch_url search)"
  by (simp add: UserService_PermissionSearch_def NewRequest_def make_slice_def issued_def
        split_beta one_GET_def sent_Do Let_def split: option.splits)

text \<open>
  C2 as amended. For every UserPermissionSearch record, PermissionSearch issues one GET
  (none when the client cannot build the request) for the endpoint followed by a
  question mark and a query string; parsing the query string gives back, in key order
  and each under its declared name, maxResults (the caller's value when it is not zero,
  else 1000) and exactly those of issueKey, permissions, projectKey, startAt and
  username whose field is not the empty string or zero.
\<close>

theorem PermissionSearch_query_round_trip:
  "issued w (snd (UserService_PermissionSearch c search w))
     = one_GET c (PermissionSearch_url search)
   \<and> PermissionSearch_url search
     = ''/rest/api/2/user/permission/search?'' @ query_of (PermissionSearch_url search)
   \<and> ParseQuery (query_of (PermissionSearch_url search))
     = (map one_value (PermissionSearch_params search), True)
   \<and> sorted (map fst (fst (ParseQuery (query_of (PermissionSearch_url search)))))"
proof -
  let ?q = "Values_Encode (PermissionSearch_values search)"
  have q: "query_of (PermissionSearch_url search) = ?q"
    and u: "PermissionSearch_url search = ''/rest/api/2/user/permission/search?'' @ ?q"
    using PermissionSearch_url_query [of search] by blast+
  have parse: "ParseQuery ?q = (map one_value (PermissionSearch_params search), True)"
    using PermissionSearch_query [of search] by blast
  have "sorted (map fst (map one_value (PermissionSearch_params search)))"
    using PermissionSearch_params_keys [of search] by (simp add: fst_one_value)
  then have "sorted (map fst (fst (ParseQuery ?q)))"
    by (simp only: parse fst_conv)
  with parse u issued_PermissionSearch [of w c search] show ?thesis
    unfolding q by blast
qed

text \<open>
  C2 as stated fails: for the record whose fields are all empty or zero the query string
  is not empty; it holds maxResults=1000, a parameter whose field is at its default.
\<close>

theorem PermissionSearch_sends_default_page_size:
  "MaxResults no_filter = 0
   \<and> query_of (PermissionSearch_url no_filter) = ''maxResults=1000''
   \<and> ParseQuery (query_of (PermissionSearch_url no_filter)) = ([(''maxResults'', [''1000''])], True)"
proof -
  have e: "Values_Encode (PermissionSearch_values no_filter) = ''maxResults=1000''"
    by (simp add: no_filter_def PermissionSearch_values_def Values_Set_def Values_Encode_def
          QueryEscape_def escape_byte_def shouldEscape_def Let_def)
  have "query_of (PermissionSearch_url no_filter)
          = Values_Encode (PermissionSearch_values no_filter)"
    using PermissionSearch_url_query [of no_filter] by blast
  then have q: "query_of (PermissionSearch_url no_filter) = ''maxResults=1000''"
    by (simp only: e)
  have "map one_value (PermissionSearch_params no_filter) = [(''maxResults'', [''1000''])]"
    by (simp add: no_filter_def PermissionSearch_params_def one_value_def)
  moreover have "ParseQuery (Values_Encode (PermissionSearch_values no_filter))
          = (map one_value (PermissionSearch_params no_filter), True)"
    using PermissionSearch_query [of no_filter] by blast
  ultimately have "ParseQuery ''maxResults=1000'' = ([(''maxResults'', [''1000''])], True)"
    by (simp only: e)
  moreover have "MaxResults no_filter = 0"
    by (simp add: no_filter_def)
  ultimately show ?thesis
    by (simp only: q)
qed

text \<open>
  C10. The request PermissionSearch builds always has a query string; it is never
  empty, it parses, and its maxResults parameter is the caller's value when that is not
  zero and 1000 when it is.
\<close>

theorem PermissionSearch_always_maxResults:
  "issued w (snd (UserService_PermissionSearch c search w))
     = one_GET c (PermissionSearch_url search)
   \<and> PermissionSearch_url search
     = ''/rest/api/2/user/permission/search?'' @ query_of (PermissionSearch_url search)
   \<and> query_of (PermissionSearch_url search) \<noteq> []
   \<and> snd (ParseQuery (query_of (PermissionSearch_url search)))
   \<and> map_of (fst (ParseQuery (query_of (PermissionSearch_url search)))) ''maxResults''
     = Some [if MaxResults search \<noteq> 0 then Itoa (MaxResults search) else ''1000'']"
proof -
  let ?q = "Values_Encode (PermissionSearch_values search)"
  have q: "query_of (PermissionSearch_url search) = ?q"
    and u: "PermissionSearch_url search = ''/rest/api/2/user/permission/search?'' @ ?q"
    using PermissionSearch_url_query [of search] by blast+
  have parse: "ParseQuery ?q = (map one_value (PermissionSearch_params search), True)"
    and ne: "?q \<noteq> []"
    using PermissionSearch_query [of search] by blast+
  have "map_of (map one_value (PermissionSearch_params search)) ''maxResults''
          = Some [if MaxResults search \<noteq> 0 then Itoa (MaxResults search) else ''1000'']"
    by (simp add: PermissionSearch_params_def one_value_def)
  then have look: "map_of (fst (ParseQuery ?q)) ''maxResults''
          = Some [if MaxResults search \<noteq> 0 then Itoa (MaxResults search) else ''1000'']"
    by (simp only: parse fst_conv)
  have ok: "snd (ParseQuery ?q)"
    by (simp only: parse snd_conv)
  from look ok ne u issued_PermissionSearch [of w c search] show ?thesis
    unfolding q by blast
qed

end
